theory Spec2Isabelle
  imports Main "HOL-Library.AList"
begin

section \<open>JavaScript values\<close>

text \<open>
  The server receives its requests as parsed JSON and answers with JSON. A JSON value is
  modelled as it is after \<^verbatim>\<open>JSON.parse\<close>: an object is the list of its own
  properties in insertion order (keys unique); a property that is absent
  (\<^verbatim>\<open>undefined\<close>) is \<open>None\<close> of an option. A number is \<open>JNum n\<close> when it is
  an integer of magnitude below \<open>10^21\<close>, which JavaScript prints in decimal; any other
  number (a fraction, or from \<open>10^21\<close> on, printed with an exponent) is \<open>JNumber s\<close>,
  \<open>s\<close> being its string form. Such a number is never zero.
\<close>

datatype json =
    JNull
  | JBool bool
  | JNum int
  | JNumber string
  | JStr string
  | JArr "json list"
  | JObj "(string \<times> json) list"

text \<open>JavaScript truthiness, as \<^verbatim>\<open>if (x)\<close>, \<^verbatim>\<open>!x\<close> and \<^verbatim>\<open>x || y\<close> use it.\<close>

fun truthy :: "json \<Rightarrow> bool" where
  "truthy JNull = False"
| "truthy (JBool b) = b"
| "truthy (JNum n) = (n \<noteq> 0)"
| "truthy (JNumber s) = True"
| "truthy (JStr s) = (s \<noteq> [])"
| "truthy (JArr xs) = True"
| "truthy (JObj kvs) = True"

definition truthy_opt :: "json option \<Rightarrow> bool" where
  "truthy_opt v = (case v of None \<Rightarrow> False | Some x \<Rightarrow> truthy x)"

text \<open>Decimal digits of a natural number, for the string form of a number.\<close>

function dec :: "nat \<Rightarrow> string" where
  "dec n = (if n < 10 then [char_of (48 + n)] else dec (n div 10) @ [char_of (48 + n mod 10)])"
  by pat_completeness auto
termination
  by (relation "measure id") auto

fun intercalate :: "string \<Rightarrow> string list \<Rightarrow> string" where
  "intercalate sep [] = []"
| "intercalate sep [x] = x"
| "intercalate sep (x # y # ys) = x @ sep @ intercalate sep (y # ys)"

text \<open>
  \<^verbatim>\<open>String(v)\<close>, which a template literal and a computed property key apply to
  a value: an array joins its elements with commas (\<^verbatim>\<open>null\<close> elements as the
  empty string), an object is \<^verbatim>\<open>[object Object]\<close>.
\<close>

fun js_to_string :: "json \<Rightarrow> string" where
  "js_to_string JNull = ''null''"
| "js_to_string (JBool b) = (if b then ''true'' else ''false'')"
| "js_to_string (JNum n) = (if n < 0 then ''-'' @ dec (nat (- n)) else dec (nat n))"
| "js_to_string (JNumber s) = s"
| "js_to_string (JStr s) = s"
| "js_to_string (JArr xs) =
     intercalate '','' (map (\<lambda>x. if x = JNull then [] else js_to_string x) xs)"
| "js_to_string (JObj kvs) = ''[object Object]''"

definition js_to_string_opt :: "json option \<Rightarrow> string" where
  "js_to_string_opt v = (case v of None \<Rightarrow> ''undefined'' | Some x \<Rightarrow> js_to_string x)"

text \<open>What a \<^verbatim>\<open>throw\<close> carries, as far as the handlers tell the cases apart.\<close>

datatype thrown =
    ZodError string json
  | JsError string
  | NonError

text \<open>
  \<^verbatim>\<open>v.k\<close> for the keys the server reads from request data (\<^verbatim>\<open>name\<close>,
  \<^verbatim>\<open>arguments\<close>, \<^verbatim>\<open>uri\<close>, the prompt arguments): none of them is a property
  of a prototype, so only an object's own property answers.
\<close>

fun obj_get :: "json \<Rightarrow> string \<Rightarrow> json option" where
  "obj_get (JObj kvs) k = map_of kvs k"
| "obj_get v k = None"

text \<open>
  The property names of \<^verbatim>\<open>Object.prototype\<close>, which every object literal inherits:
  \<^verbatim>\<open>__proto__\<close> is an accessor that gives the prototype object, the others are
  native functions. \<open>native_source\<close> is the string form of such a function.
\<close>

definition object_prototype_keys :: "string list" where
  "object_prototype_keys =
     [''constructor'', ''__defineGetter__'', ''__defineSetter__'', ''hasOwnProperty'',
      ''__lookupGetter__'', ''__lookupSetter__'', ''isPrototypeOf'', ''propertyIsEnumerable'',
      ''toString'', ''valueOf'', ''__proto__'', ''toLocaleString'']"

definition native_source :: "string \<Rightarrow> string" where
  "native_source name =
     ''function '' @ (if name = ''constructor'' then ''Object'' else name)
     @ ''() { [native code] }''"

section \<open>schema-generator.ts\<close>

text \<open>
  The Zod schemas as \<^verbatim>\<open>zodToJsonSchema\<close> tells them apart. Each carries its
  \<^verbatim>\<open>_def.description\<close> where the function reads it. \<open>ZodOther b\<close> is any
  other Zod type (\<^verbatim>\<open>z.any()\<close>, \<^verbatim>\<open>z.unknown()\<close>, ...), \<open>b\<close> being what
  its \<^verbatim>\<open>isOptional()\<close> answers. A \<open>ZodString\<close> and a \<open>ZodBoolean\<close> carry
  that answer too: it is true of a coercing schema (\<^verbatim>\<open>z.coerce.string()\<close>,
  \<^verbatim>\<open>z.coerce.boolean()\<close>), an instance of the same class that turns
  \<^verbatim>\<open>undefined\<close> into \<^verbatim>\<open>"undefined"\<close> or \<^verbatim>\<open>false\<close>, and false of
  \<^verbatim>\<open>z.string()\<close> and \<^verbatim>\<open>z.boolean()\<close>.
\<close>

datatype zod =
    ZodObject "(string \<times> zod) list"
  | ZodString "string option" bool
  | ZodNumber "string option"
  | ZodBoolean "string option" bool
  | ZodArray zod "string option"
  | ZodEnum "string list" "string option"
  | ZodRecord "zod option" "string option"
  | ZodOptional zod
  | ZodUnion "zod list"
  | ZodOther bool

text \<open>
  Zod's \<^verbatim>\<open>isOptional()\<close> is \<^verbatim>\<open>this.safeParse(undefined).success\<close>: whether
  the schema accepts \<^verbatim>\<open>undefined\<close>. An optional does; a union does when one of its
  options does; objects, arrays, enums and records reject what is not of their type, and
  a number schema rejects \<^verbatim>\<open>undefined\<close> also when it coerces (to \<^verbatim>\<open>NaN\<close>).
\<close>

fun isOptional :: "zod \<Rightarrow> bool" where
  "isOptional (ZodOptional z) = True"
| "isOptional (ZodUnion opts) = list_ex isOptional opts"
| "isOptional (ZodOther b) = b"
| "isOptional (ZodObject shape) = False"
| "isOptional (ZodString d b) = b"
| "isOptional (ZodNumber d) = False"
| "isOptional (ZodBoolean d b) = b"
| "isOptional (ZodArray z d) = False"
| "isOptional (ZodEnum vs d) = False"
| "isOptional (ZodRecord vt d) = False"

text \<open>\<^verbatim>\<open>if (_def.description) schema.description = _def.description\<close>\<close>

definition with_description :: "string option \<Rightarrow> (string \<times> json) list \<Rightarrow> json" where
  "with_description d kvs =
     (case d of
        None \<Rightarrow> JObj kvs
      | Some s \<Rightarrow> if s = [] then JObj kvs else JObj (kvs @ [(''description'', JStr s)]))"

text \<open>
  The result is the object as \<^verbatim>\<open>JSON.stringify\<close> publishes it: a property whose
  value is \<^verbatim>\<open>undefined\<close> (\<^verbatim>\<open>required\<close> when no key is required) is absent.
\<close>

fun zodToJsonSchema :: "zod \<Rightarrow> json" where
  "zodToJsonSchema (ZodObject shape) =
     (let properties = map (\<lambda>(key, v). (key, zodToJsonSchema v)) shape;
          required = map fst (filter (\<lambda>(key, v). \<not> isOptional v) shape)
      in JObj ([(''type'', JStr ''object''), (''properties'', JObj properties)]
               @ (if length required > 0 then [(''required'', JArr (map JStr required))] else [])
               @ [(''additionalProperties'', JBool False),
                  (''$schema'', JStr ''http://json-schema.org/draft-07/schema#'')]))"
| "zodToJsonSchema (ZodString d b) = with_description d [(''type'', JStr ''string'')]"
| "zodToJsonSchema (ZodNumber d) = with_description d [(''type'', JStr ''number'')]"
| "zodToJsonSchema (ZodBoolean d b) = with_description d [(''type'', JStr ''boolean'')]"
| "zodToJsonSchema (ZodArray element d) =
     with_description d [(''type'', JStr ''array''), (''items'', zodToJsonSchema element)]"
| "zodToJsonSchema (ZodEnum options d) =
     with_description d [(''type'', JStr ''string''), (''enum'', JArr (map JStr options))]"
| "zodToJsonSchema (ZodRecord valueType d) =
     with_description d
       [(''type'', JStr ''object''), (''properties'', JObj []),
        (''additionalProperties'',
           (case valueType of None \<Rightarrow> JBool True | Some vt \<Rightarrow> zodToJsonSchema vt))]"
| "zodToJsonSchema (ZodOptional inner) = zodToJsonSchema inner"
| "zodToJsonSchema (ZodUnion options) =
     JObj [(''anyOf'', JArr (map zodToJsonSchema options))]"
| "zodToJsonSchema (ZodOther b) =
     JObj [(''type'', JStr ''object''), (''properties'', JObj []),
           (''additionalProperties'', JBool True)]"


section \<open>middleware.ts\<close>

subsection \<open>Rate limiting\<close>

record RateLimitEntry =
  count :: nat
  resetTime :: int

type_synonym rate_limit_store = "(string \<times> RateLimitEntry) list"

definition RATE_LIMIT_WINDOW :: int where
  "RATE_LIMIT_WINDOW = 60 * 1000"

definition RATE_LIMIT_MAX_REQUESTS :: nat where
  "RATE_LIMIT_MAX_REQUESTS = 100"

text \<open>\<^verbatim>\<open>Math.ceil(a / b)\<close> on integers, \<open>b\<close> positive.\<close>

definition ceil_div :: "int \<Rightarrow> int \<Rightarrow> int" where
  "ceil_div a b = - ((- a) div b)"

text \<open>
  What the rate limiter does with the request: it is inactive outside production, it
  passes the request on with the three \<^verbatim>\<open>X-RateLimit-*\<close> headers (limit, remaining,
  reset), or it answers 429 itself with \<^verbatim>\<open>retryAfter\<close> seconds.
\<close>

datatype rate_limit_outcome =
    Skipped
  | Passed nat nat int
  | Rejected int

text \<open>
  \<open>production\<close> is \<^verbatim>\<open>process.env.NODE_ENV === 'production'\<close>, \<open>clientId\<close> the
  request's address (or forwarded-for header, or \<^verbatim>\<open>'unknown'\<close>), \<open>now\<close> is
  \<^verbatim>\<open>Date.now()\<close>. The store is the \<^verbatim>\<open>Map\<close>, in insertion order.
\<close>

definition rateLimitMiddleware ::
  "bool \<Rightarrow> string \<Rightarrow> int \<Rightarrow> rate_limit_store \<Rightarrow> rate_limit_store \<times> rate_limit_outcome" where
  "rateLimitMiddleware production clientId now store =
     (if \<not> production then (store, Skipped)
      else
        let fresh = \<lparr>count = 0, resetTime = now + RATE_LIMIT_WINDOW\<rparr>;
            entry0 = (case map_of store clientId of
                        None \<Rightarrow> fresh
                      | Some e \<Rightarrow> if now > resetTime e then fresh else e);
            entry = entry0\<lparr>count := count entry0 + 1\<rparr>;
            store' = AList.update clientId entry store
        in if count entry > RATE_LIMIT_MAX_REQUESTS
           then (store', Rejected (ceil_div (resetTime entry - now) 1000))
           else (store', Passed RATE_LIMIT_MAX_REQUESTS
                           (RATE_LIMIT_MAX_REQUESTS - count entry)
                           (ceil_div (resetTime entry) 1000)))"

text \<open>The sweep of the store, every minute: expired entries are deleted.\<close>

definition rate_limit_sweep :: "int \<Rightarrow> rate_limit_store \<Rightarrow> rate_limit_store" where
  "rate_limit_sweep now store = filter (\<lambda>(key, entry). \<not> now > resetTime entry) store"

text \<open>One client's requests, at the times given, through the rate limiter in production.\<close>

fun serve_client ::
  "string \<Rightarrow> int list \<Rightarrow> rate_limit_store \<Rightarrow> rate_limit_outcome list \<times> rate_limit_store" where
  "serve_client c [] store = ([], store)"
| "serve_client c (t # ts) store =
     (let (store', out) = rateLimitMiddleware True c t store;
          (outs, store'') = serve_client c ts store'
      in (out # outs, store''))"

fun is_passed :: "rate_limit_outcome \<Rightarrow> bool" where
  "is_passed (Passed l r t) = True"
| "is_passed out = False"

subsection \<open>Metrics\<close>

text \<open>
  The counters of \<^verbatim>\<open>metrics\<close>; \<^verbatim>\<open>byTool\<close> and \<^verbatim>\<open>byStatus\<close> are objects
  used as dictionaries, \<^verbatim>\<open>byStatus\<close> under status codes, \<^verbatim>\<open>byTool\<close> under
  whatever name a request gives, so that its values are not all numbers (see
  \<open>bump_tool\<close>). \<^verbatim>\<open>avgResponseTime\<close>, a floating-point mean of
  \<^verbatim>\<open>responseTimeHistory\<close>, is derived from the history and not kept here.
\<close>

record Metrics =
  total :: nat
  success :: nat
  error :: nat
  byTool :: "(string \<times> json) list"
  byStatus :: "(nat \<times> nat) list"
  sessions_total :: nat
  sessions_active :: nat
  responseTimeHistory :: "int list"

definition metrics0 :: Metrics where
  "metrics0 = \<lparr>total = 0, success = 0, error = 0, byTool = [], byStatus = [],
               sessions_total = 0, sessions_active = 0, responseTimeHistory = []\<rparr>"

text \<open>\<^verbatim>\<open>d[k] = (d[k] || 0) + 1\<close>\<close>

definition bump :: "'k \<Rightarrow> ('k \<times> nat) list \<Rightarrow> ('k \<times> nat) list" where
  "bump k d = AList.update k ((case map_of d k of None \<Rightarrow> 0 | Some c \<Rightarrow> c) + 1) d"

text \<open>
  \<^verbatim>\<open>byTool[toolName] = (byTool[toolName] || 0) + 1\<close> on an object literal. Under a
  name that \<^verbatim>\<open>Object.prototype\<close> has, the first read gives the inherited value: the
  sum is then a string, which the assignment stores as an own property (a later sum
  appends another \<^verbatim>\<open>1\<close>), except under \<^verbatim>\<open>__proto__\<close>, where assigning a string
  does nothing.
\<close>

definition bump_tool :: "string \<Rightarrow> (string \<times> json) list \<Rightarrow> (string \<times> json) list" where
  "bump_tool name d =
     (case map_of d name of
        Some (JNum c) \<Rightarrow> AList.update name (JNum (c + 1)) d
      | Some v \<Rightarrow> AList.update name (JStr (js_to_string v @ ''1'')) d
      | None \<Rightarrow>
          if name = ''__proto__'' then d
          else if name \<in> set object_prototype_keys
          then AList.update name (JStr (native_source name @ ''1'')) d
          else AList.update name (JNum 1) d)"

definition updateSessionMetrics :: "nat \<Rightarrow> nat \<Rightarrow> Metrics \<Rightarrow> Metrics" where
  "updateSessionMetrics activeCount totalCount m =
     m\<lparr>sessions_active := activeCount, sessions_total := totalCount\<rparr>"

text \<open>
  The body of the wrapper that \<^verbatim>\<open>metricsMiddleware\<close> installs over
  \<^verbatim>\<open>res.json\<close>: \<open>statusCode\<close> is \<^verbatim>\<open>res.statusCode\<close> when the body is sent,
  \<open>toolName\<close> is \<^verbatim>\<open>req.body.params.name\<close> of a \<^verbatim>\<open>tools/call\<close> request
  when it is truthy.
\<close>

definition record_json :: "nat \<Rightarrow> int \<Rightarrow> string option \<Rightarrow> Metrics \<Rightarrow> Metrics" where
  "record_json statusCode responseTime toolName m =
     (let m1 = m\<lparr>responseTimeHistory := responseTimeHistory m @ [responseTime]\<rparr>;
          m2 = (if statusCode \<ge> 200 \<and> statusCode < 300
                then m1\<lparr>success := success m1 + 1\<rparr>
                else m1\<lparr>error := error m1 + 1\<rparr>);
          m3 = m2\<lparr>byStatus := bump statusCode (byStatus m2)\<rparr>
      in case toolName of
           None \<Rightarrow> m3
         | Some n \<Rightarrow> m3\<lparr>byTool := bump_tool n (byTool m3)\<rparr>)"

text \<open>The history is cut to its last 500 entries once it holds more than 1000.\<close>

definition compact_history :: "Metrics \<Rightarrow> Metrics" where
  "compact_history m =
     (if length (responseTimeHistory m) > 1000
      then m\<lparr>responseTimeHistory :=
               drop (length (responseTimeHistory m) - 500) (responseTimeHistory m)\<rparr>
      else m)"

section \<open>streamable-http-server.ts: sessions\<close>

record Session =
  sid :: string
  clientId :: "string option"
  createdAt :: int
  lastActivity :: int
  messageQueue :: "json list"

type_synonym sessions = "(string \<times> Session) list"

definition SESSION_TIMEOUT :: int where
  "SESSION_TIMEOUT = 30 * 60 * 1000"

text \<open>
  The session middleware: a request whose \<^verbatim>\<open>x-session-id\<close> header names a live
  session touches it and gets it as \<^verbatim>\<open>req.session\<close>. The session object is shared
  with the \<^verbatim>\<open>Map\<close>, so the store sees the new \<^verbatim>\<open>lastActivity\<close>.
\<close>

definition session_middleware ::
  "string option \<Rightarrow> int \<Rightarrow> sessions \<Rightarrow> sessions \<times> Session option" where
  "session_middleware sessionId now ss =
     (case sessionId of
        None \<Rightarrow> (ss, None)
      | Some i \<Rightarrow>
          if i = [] then (ss, None)
          else (case map_of ss i of
                  None \<Rightarrow> (ss, None)
                | Some s \<Rightarrow>
                    let s' = s\<lparr>lastActivity := now\<rparr>
                    in (AList.update i s' ss, Some s')))"

text \<open>
  The sweep, every minute: a session is deleted when
  \<^verbatim>\<open>now - session.lastActivity.getTime() > SESSION_TIMEOUT\<close>. It returns the live
  sessions and \<^verbatim>\<open>removedCount\<close>.
\<close>

definition expired :: "int \<Rightarrow> Session \<Rightarrow> bool" where
  "expired now s = (now - lastActivity s > SESSION_TIMEOUT)"

definition session_sweep :: "int \<Rightarrow> sessions \<Rightarrow> sessions \<times> nat" where
  "session_sweep now ss =
     (filter (\<lambda>(i, s). \<not> expired now s) ss,
      length (filter (\<lambda>(i, s). expired now s) ss))"

definition sweep_tick :: "int \<Rightarrow> sessions \<times> Metrics \<Rightarrow> sessions \<times> Metrics" where
  "sweep_tick now st =
     (let (ss', removedCount) = session_sweep now (fst st)
      in (ss', updateSessionMetrics (length ss') (length ss' + removedCount) (snd st)))"


section \<open>streamable-http-server.ts: the tool registry\<close>

text \<open>\<^verbatim>\<open>z.string()\<close>, \<^verbatim>\<open>z.number()\<close>, \<^verbatim>\<open>z.boolean()\<close>: no description, no coercion.\<close>

abbreviation zstring :: zod where "zstring \<equiv> ZodString None False"
abbreviation znumber :: zod where "znumber \<equiv> ZodNumber None"
abbreviation zboolean :: zod where "zboolean \<equiv> ZodBoolean None False"

text \<open>\<^verbatim>\<open>z.record(z.any())\<close>: the value type \<^verbatim>\<open>z.any()\<close> accepts \<^verbatim>\<open>undefined\<close>.\<close>

abbreviation zrecord_any :: zod where "zrecord_any \<equiv> ZodRecord (Some (ZodOther True)) None"

text \<open>The keys of \<^verbatim>\<open>tools\<close> in the order of the object literal, each with its
  description and its schema.\<close>

definition tool_table :: "(string \<times> string \<times> zod) list" where
  "tool_table = [
    (''ping'',
      ''A simple tool to check if the server is responding.'',
      ZodObject []),
    (''find_doctypes'',
      ''Find DocTypes in the system matching a search term'',
      ZodObject [(''search_term'', ZodOptional zstring),
        (''module'', ZodOptional zstring),
        (''is_table'', ZodOptional zboolean),
        (''is_single'', ZodOptional zboolean),
        (''is_custom'', ZodOptional zboolean),
        (''limit'', ZodOptional znumber)]),
    (''get_module_list'',
      ''Get a list of all modules in the system'',
      ZodObject []),
    (''check_doctype_exists'',
      ''Check if a DocType exists in the system'',
      ZodObject [(''doctype'', zstring)]),
    (''get_doctype_schema'',
      ''Get the complete schema for a DocType'',
      ZodObject [(''doctype'', zstring)]),
    (''list_documents'',
      ''List documents from Frappe with filters'',
      ZodObject [(''doctype'', zstring),
        (''filters'', ZodOptional zrecord_any),
        (''fields'', ZodOptional (ZodArray zstring None)),
        (''limit'', ZodOptional znumber),
        (''order_by'', ZodOptional zstring),
        (''limit_start'', ZodOptional znumber)]),
    (''create_document'',
      ''Create a new document in Frappe'',
      ZodObject [(''doctype'', zstring),
        (''values'', zrecord_any)]),
    (''get_document'',
      ''Retrieve a document from Frappe'',
      ZodObject [(''doctype'', zstring),
        (''name'', zstring),
        (''fields'', ZodOptional (ZodArray zstring None))]),
    (''update_document'',
      ''Update an existing document in Frappe'',
      ZodObject [(''doctype'', zstring),
        (''name'', zstring),
        (''values'', zrecord_any)]),
    (''delete_document'',
      ''Delete a document from Frappe'',
      ZodObject [(''doctype'', zstring),
        (''name'', zstring)]),
    (''get_field_options'',
      ''Get available options for a Link or Select field'',
      ZodObject [(''doctype'', zstring),
        (''fieldname'', zstring),
        (''filters'', ZodOptional zrecord_any)]),
    (''get_frappe_usage_info'',
      ''Get combined information about a DocType or workflow'',
      ZodObject [(''doctype'', ZodOptional zstring),
        (''workflow'', ZodOptional zstring)]),
    (''get_doctypes_in_module'',
      ''Get a list of DocTypes in a specific module'',
      ZodObject [(''module'', zstring)]),
    (''check_document_exists'',
      ''Check if a document exists'',
      ZodObject [(''doctype'', zstring),
        (''name'', zstring)]),
    (''get_document_count'',
      ''Get a count of documents matching filters'',
      ZodObject [(''doctype'', zstring),
        (''filters'', ZodOptional zrecord_any)]),
    (''get_naming_info'',
      ''Get the naming series information for a DocType'',
      ZodObject [(''doctype'', zstring)]),
    (''get_required_fields'',
      ''Get a list of required fields for a DocType'',
      ZodObject [(''doctype'', zstring)]),
    (''get_api_instructions'',
      ''Get detailed instructions for using the Frappe API'',
      ZodObject [(''category'', zstring),
        (''operation'', zstring)]),
    (''version'',
      ''Get version information for the Frappe MCP server'',
      ZodObject []),
    (''call_method'',
      ''Execute a whitelisted Frappe method'',
      ZodObject [(''method'', zstring),
        (''params'', ZodOptional zrecord_any)]),
    (''reconcile_bank_transaction_with_vouchers'',
      ''Reconciles a Bank Transaction document with specified vouchers'',
      ZodObject [(''bank_transaction_name'', zstring),
        (''vouchers'', ZodArray (ZodObject [(''payment_doctype'', zstring), (''payment_name'', zstring), (''amount'', znumber)]) None)]),
    (''run_query_report'',
      ''Execute a Frappe query report with filters'',
      ZodObject [(''report_name'', zstring),
        (''filters'', ZodOptional zrecord_any),
        (''user'', ZodOptional zstring)]),
    (''get_report_meta'',
      ''Get metadata for a specific report including columns and filters'',
      ZodObject [(''report_name'', zstring)]),
    (''list_reports'',
      ''Get a list of all available reports in the system'',
      ZodObject [(''module'', ZodOptional zstring)]),
    (''export_report'',
      ''Export a report in PDF, Excel, or CSV format'',
      ZodObject [(''report_name'', zstring),
        (''file_format'', ZodEnum [''PDF'', ''Excel'', ''CSV''] None),
        (''filters'', ZodOptional zrecord_any),
        (''visible_idx'', ZodOptional (ZodArray znumber None))]),
    (''get_financial_statements'',
      ''Get standard financial reports (P&L, Balance Sheet, Cash Flow)'',
      ZodObject [(''report_type'', ZodEnum [''Profit and Loss Statement'', ''Balance Sheet'', ''Cash Flow''] None),
        (''company'', zstring),
        (''from_date'', zstring),
        (''to_date'', zstring),
        (''periodicity'', ZodOptional (ZodEnum [''Monthly'', ''Quarterly'', ''Half-Yearly'', ''Yearly''] None)),
        (''include_default_book_entries'', ZodOptional zboolean)]),
    (''get_report_columns'',
      ''Get the column structure for a specific report'',
      ZodObject [(''report_name'', zstring),
        (''filters'', ZodOptional zrecord_any)]),
    (''run_doctype_report'',
      ''Run a standard doctype report with filters and sorting'',
      ZodObject [(''doctype'', zstring),
        (''fields'', ZodOptional (ZodArray zstring None)),
        (''filters'', ZodOptional zrecord_any),
        (''order_by'', ZodOptional zstring),
        (''limit'', ZodOptional znumber)])]"

text \<open>
  What the server takes from outside: the Zod library's \<^verbatim>\<open>parse\<close>, the handlers
  that call the Frappe site, the resource provider (\<^verbatim>\<open>resources.ts\<close>), the prompt
  text generators, the package version, the environment, the clock and the UUID source,
  and what the runtime makes of a thrown value (its JSON form, its \<^verbatim>\<open>stack\<close>).
  A call that can throw returns \<open>Inl\<close> of what it throws.
\<close>

record env =
  zod_parse :: "zod \<Rightarrow> json \<Rightarrow> thrown + json"
  external_handler :: "string \<Rightarrow> json \<Rightarrow> thrown + json"
  getVersion :: string
  development :: bool
  serialize_thrown :: "thrown \<Rightarrow> json"
  error_stack :: "thrown \<Rightarrow> json option"
  randomUUID :: string
  date_now :: int
  listResources :: "thrown + json list"
  getResourceCategories :: json
  getResource :: "json \<Rightarrow> thrown + json option"
  generate :: "string \<Rightarrow> json option list \<Rightarrow> thrown + json"

record tool_def =
  description :: string
  schema :: zod
  handler :: "json \<Rightarrow> thrown + json"

definition text_content :: "string \<Rightarrow> json" where
  "text_content s = JObj [(''content'', JArr [JObj [(''type'', JStr ''text''), (''text'', JStr s)]])]"

text \<open>\<^verbatim>\<open>ping\<close> and \<^verbatim>\<open>version\<close> answer by themselves; every other handler calls out.\<close>

definition handler_of :: "env \<Rightarrow> string \<Rightarrow> json \<Rightarrow> thrown + json" where
  "handler_of env name args =
     (if name = ''ping'' then Inr (text_content ''pong'')
      else if name = ''version''
      then Inr (text_content (''Frappe MCP Server version '' @ getVersion env))
      else external_handler env name args)"

definition tools :: "env \<Rightarrow> (string \<times> tool_def) list" where
  "tools env =
     map (\<lambda>(name, d, z). (name, \<lparr>description = d, schema = z, handler = handler_of env name\<rparr>))
       tool_table"

text \<open>
  \<^verbatim>\<open>tools[toolName]\<close> reads a property of an object literal: an own property when the
  registry has the key, else what \<^verbatim>\<open>Object.prototype\<close> has under that name (a function,
  or the prototype object itself for \<^verbatim>\<open>__proto__\<close>: all truthy), else
  \<^verbatim>\<open>undefined\<close>.
\<close>

datatype 'a property = Own 'a | Inherited | Undefined

definition tools_get :: "(string \<times> tool_def) list \<Rightarrow> string \<Rightarrow> tool_def property" where
  "tools_get reg name =
     (case map_of reg name of
        Some toolDef \<Rightarrow> Own toolDef
      | None \<Rightarrow> if name \<in> set object_prototype_keys then Inherited else Undefined)"

subsection \<open>Categories (schema-generator.ts)\<close>

definition category_info :: "string \<Rightarrow> string \<Rightarrow> string \<Rightarrow> json" where
  "category_info n d icon =
     JObj [(''name'', JStr n), (''description'', JStr d), (''icon'', JStr icon)]"

text \<open>The icons are the UTF-8 bytes of the source's emoji.\<close>

definition getToolCategories :: "(string \<times> json) list" where
  "getToolCategories =
     [(''document'', category_info ''Document Operations''
         ''Create, read, update, delete documents in Frappe''
         [CHR 0xF0, CHR 0x9F, CHR 0x93, CHR 0x84]),
      (''schema'', category_info ''Schema Operations''
         ''Get DocType schemas, field options, and metadata''
         [CHR 0xF0, CHR 0x9F, CHR 0x8F, CHR 0x97, CHR 0xEF, CHR 0xB8, CHR 0x8F]),
      (''helper'', category_info ''Helper Tools''
         ''Utility functions for system exploration''
         [CHR 0xF0, CHR 0x9F, CHR 0x94, CHR 0xA7]),
      (''report'', category_info ''Report Operations''
         ''Generate and export reports from Frappe''
         [CHR 0xF0, CHR 0x9F, CHR 0x93, CHR 0x8A]),
      (''system'', category_info ''System Tools''
         ''Server information and system utilities''
         [CHR 0xE2, CHR 0x9A, CHR 0x99, CHR 0xEF, CHR 0xB8, CHR 0x8F])]"

definition categorizeTools :: "(string \<times> string list) list" where
  "categorizeTools =
     [(''document'',
         [''create_document'', ''get_document'', ''update_document'', ''delete_document'',
          ''list_documents'', ''reconcile_bank_transaction_with_vouchers'']),
      (''schema'', [''get_doctype_schema'', ''get_field_options'', ''get_frappe_usage_info'']),
      (''helper'',
         [''find_doctypes'', ''get_module_list'', ''get_doctypes_in_module'',
          ''check_doctype_exists'', ''check_document_exists'', ''get_document_count'',
          ''get_naming_info'', ''get_required_fields'', ''get_api_instructions'']),
      (''report'',
         [''run_query_report'', ''get_report_meta'', ''list_reports'', ''export_report'',
          ''get_financial_statements'', ''get_report_columns'', ''run_doctype_report'']),
      (''system'', [''ping'', ''version'', ''call_method''])]"

text \<open>The first category that lists the tool, \<^verbatim>\<open>'system'\<close> when none does.\<close>

fun category_of :: "(string \<times> string list) list \<Rightarrow> string \<Rightarrow> string" where
  "category_of [] name = ''system''"
| "category_of ((catName, toolNames) # cs) name =
     (if name \<in> set toolNames then catName else category_of cs name)"

definition tool_entry :: "string \<Rightarrow> tool_def \<Rightarrow> json" where
  "tool_entry name tool =
     (let category = category_of categorizeTools name
      in JObj ([(''name'', JStr name),
                (''description'', JStr (description tool)),
                (''inputSchema'', zodToJsonSchema (schema tool)),
                (''category'', JStr category)]
               @ (case map_of getToolCategories category of
                    None \<Rightarrow> []
                  | Some info \<Rightarrow> [(''categoryInfo'', info)])))"

definition tools_list_result :: "env \<Rightarrow> json" where
  "tools_list_result env =
     (let toolList = map (\<lambda>(name, tool). tool_entry name tool) (tools env)
      in JObj [(''tools'', JArr toolList),
               (''categories'', JObj getToolCategories),
               (''totalTools'', JNum (int (length toolList)))])"


section \<open>prompts.ts\<close>

definition prompt_argument :: "string \<Rightarrow> string \<Rightarrow> bool \<Rightarrow> json" where
  "prompt_argument n d r =
     JObj [(''name'', JStr n), (''description'', JStr d), (''required'', JBool r)]"

definition prompt :: "string \<Rightarrow> string \<Rightarrow> json list \<Rightarrow> json" where
  "prompt n d args = JObj [(''name'', JStr n), (''description'', JStr d), (''arguments'', JArr args)]"

definition listPrompts :: "json list" where
  "listPrompts =
     [prompt ''analyze_doctype'' ''Analyze a DocType structure and suggest improvements''
        [prompt_argument ''doctype_name'' ''Name of the DocType to analyze'' True],
      prompt ''generate_api_usage'' ''Generate API usage examples for a specific DocType''
        [prompt_argument ''doctype_name'' ''DocType to generate API examples for'' True,
         prompt_argument ''operation'' ''API operation (create, read, update, delete, list)'' False],
      prompt ''design_workflow'' ''Design a business workflow using Frappe DocTypes''
        [prompt_argument ''business_process'' ''Description of the business process'' True,
         prompt_argument ''modules'' ''Relevant modules to consider (comma-separated)'' False],
      prompt ''troubleshoot_setup'' ''Help troubleshoot Frappe setup or configuration issues''
        [prompt_argument ''issue_description'' ''Description of the issue or error'' True,
         prompt_argument ''module'' ''Module where the issue occurs'' False],
      prompt ''optimize_performance'' ''Analyze and suggest performance optimizations''
        [prompt_argument ''performance_issue'' ''Description of performance problem'' True,
         prompt_argument ''doctype_name'' ''Specific DocType with performance issues'' False],
      prompt ''create_custom_report'' ''Guide through creating a custom report''
        [prompt_argument ''report_requirements'' ''What data the report should show'' True,
         prompt_argument ''report_type'' ''Type of report (query, script, print)'' False],
      prompt ''integration_planning'' ''Plan integration with external systems''
        [prompt_argument ''external_system'' ''External system to integrate with'' True,
         prompt_argument ''integration_type'' ''Type of integration (webhook, api, file)'' False],
      prompt ''data_migration'' ''Plan data migration strategy''
        [prompt_argument ''source_system'' ''Source system for data migration'' True,
         prompt_argument ''target_doctypes'' ''Target DocTypes for migration'' False]]"

text \<open>
  The cases of the \<^verbatim>\<open>switch (name)\<close> of \<^verbatim>\<open>getPrompt\<close>: each prompt name with
  the properties of \<^verbatim>\<open>args\<close> that its generator is called with.
\<close>

definition prompt_cases :: "(string \<times> string list) list" where
  "prompt_cases =
     [(''analyze_doctype'', [''doctype_name'']),
      (''generate_api_usage'', [''doctype_name'', ''operation'']),
      (''design_workflow'', [''business_process'', ''modules'']),
      (''troubleshoot_setup'', [''issue_description'', ''module'']),
      (''optimize_performance'', [''performance_issue'', ''doctype_name'']),
      (''create_custom_report'', [''report_requirements'', ''report_type'']),
      (''integration_planning'', [''external_system'', ''integration_type'']),
      (''data_migration'', [''source_system'', ''target_doctypes''])]"

text \<open>
  \<^verbatim>\<open>args.key\<close>: reading a property of \<^verbatim>\<open>null\<close> throws a TypeError; a value that
  is no object has none of the keys read here.
\<close>

definition read_property :: "json \<Rightarrow> string \<Rightarrow> thrown + json option" where
  "read_property v k =
     (if v = JNull
      then Inl (JsError (''Cannot read properties of null (reading '' @ [CHR 0x27] @ k @ [CHR 0x27] @ '')''))
      else Inr (obj_get v k))"

fun read_properties :: "json \<Rightarrow> string list \<Rightarrow> thrown + json option list" where
  "read_properties v [] = Inr []"
| "read_properties v (k # ks) =
     (case read_property v k of
        Inl e \<Rightarrow> Inl e
      | Inr x \<Rightarrow> (case read_properties v ks of Inl e \<Rightarrow> Inl e | Inr xs \<Rightarrow> Inr (x # xs)))"

text \<open>
  \<^verbatim>\<open>getPrompt\<close>: the \<^verbatim>\<open>switch\<close> compares \<open>name\<close> with the eight prompt names by
  \<^verbatim>\<open>===\<close>; its \<^verbatim>\<open>try\<close> turns whatever the generator (or reading
  \<^verbatim>\<open>args\<close>) throws into \<^verbatim>\<open>null\<close>, as the \<^verbatim>\<open>default\<close> case returns.
  The result is what the promise settles with: \<open>Inl\<close> were a rejection.
\<close>

definition getPrompt :: "env \<Rightarrow> json \<Rightarrow> json \<Rightarrow> thrown + json option" where
  "getPrompt env name args =
     Inr (case name of
            JStr n \<Rightarrow>
              (case map_of prompt_cases n of
                 None \<Rightarrow> None
               | Some keys \<Rightarrow>
                   (case read_properties args keys of
                      Inl e \<Rightarrow> None
                    | Inr vals \<Rightarrow>
                        (case generate env n vals of
                           Inl e \<Rightarrow> None
                         | Inr r \<Rightarrow> Some r)))
          | _ \<Rightarrow> None)"

section \<open>streamable-http-server.ts: the POST endpoint\<close>

record rpc_error =
  code :: int
  message :: string
  data :: "json option"

text \<open>
  The bodies the endpoint sends, all with \<^verbatim>\<open>jsonrpc: "2.0"\<close>: a result or an error
  under the request's \<^verbatim>\<open>id\<close> (absent when the request had none), and the progress
  notification of a streamed tool call.
\<close>

datatype rpc_message =
    Result "json option" json
  | Failure "json option" rpc_error
  | Progress "json option"

text \<open>
  What a request does to its response and to the outside, in order. \<open>Json\<close> is
  \<^verbatim>\<open>res.json(body)\<close>, which sends the body and ends the response; \<open>SSE\<close> is
  \<^verbatim>\<open>sendSSE\<close>, one \<^verbatim>\<open>data:\<close> frame; \<open>End\<close> is \<^verbatim>\<open>res.end()\<close>;
  \<open>Invoke\<close> is the call of a tool's handler with the validated arguments.
\<close>

datatype event =
    SetHeader string string
  | WriteHead nat "(string \<times> string) list"
  | Status nat
  | Json rpc_message
  | SSE rpc_message
  | StartHeartbeat
  | End
  | Invoke string json

record headers =
  x_session_id :: "string option"
  user_agent :: "string option"
  accept :: "string option"

text \<open>
  The four properties of a parsed \<^verbatim>\<open>req.body\<close> (an object, or an array, which has
  none of them) that the endpoint destructures, \<open>None\<close> for an absent one. A request
  whose body \<^verbatim>\<open>express.json()\<close> did not parse has no \<^verbatim>\<open>req.body\<close>: a
  \<open>body option\<close> that is \<open>None\<close>, see \<open>app_post\<close>.
\<close>

record body =
  jsonrpc :: "json option"
  meth :: "json option"
  params :: "json option"
  rid :: "json option"

fun startsWith :: "string \<Rightarrow> string \<Rightarrow> bool" where
  "startsWith s [] = True"
| "startsWith [] (p # ps) = False"
| "startsWith (c # cs) (p # ps) = (c = p \<and> startsWith cs ps)"

fun includes_str :: "string \<Rightarrow> string \<Rightarrow> bool" where
  "includes_str [] p = (p = [])"
| "includes_str (c # cs) p = (startsWith (c # cs) p \<or> includes_str cs p)"

text \<open>
  \<^verbatim>\<open>method?.startsWith(m)\<close> is \<^verbatim>\<open>undefined\<close> for an absent or \<^verbatim>\<open>null\<close>
  method and throws a TypeError for a method that is no string.
\<close>

definition shouldStream :: "json option \<Rightarrow> string option \<Rightarrow> thrown + bool" where
  "shouldStream method userAgent =
     (if (case userAgent of None \<Rightarrow> False | Some ua \<Rightarrow> includes_str ua ''Cursor'')
      then Inr False
      else (case method of
              None \<Rightarrow> Inr False
            | Some JNull \<Rightarrow> Inr False
            | Some (JStr m) \<Rightarrow>
                Inr (list_ex (startsWith m) [''resources/read'', ''prompts/run''])
            | Some v \<Rightarrow> Inl (JsError ''method?.startsWith is not a function'')))"

text \<open>
  \<^verbatim>\<open>shouldStream(method, req.headers['user-agent']) &&
  req.headers.accept?.includes('text/event-stream')\<close>
\<close>

definition negotiate :: "json option \<Rightarrow> headers \<Rightarrow> thrown + bool" where
  "negotiate method hs =
     (case shouldStream method (user_agent hs) of
        Inl e \<Rightarrow> Inl e
      | Inr b \<Rightarrow>
          Inr (b \<and> (case accept hs of None \<Rightarrow> False | Some a \<Rightarrow> includes_str a ''text/event-stream'')))"

text \<open>
  The pattern every branch ends with: one frame and the end of the stream when
  streaming, else one JSON body, after \<^verbatim>\<open>res.status(n)\<close> where the branch sets one.
\<close>

definition reply :: "bool \<Rightarrow> nat option \<Rightarrow> rpc_message \<Rightarrow> event list" where
  "reply streaming status msg =
     (if streaming then [SSE msg, End]
      else (case status of None \<Rightarrow> [Json msg] | Some n \<Rightarrow> [Status n, Json msg]))"

text \<open>\<^verbatim>\<open>error instanceof Error ? error.message : 'Internal error'\<close>\<close>

fun error_message :: "thrown \<Rightarrow> string" where
  "error_message (ZodError m issues) = m"
| "error_message (JsError m) = m"
| "error_message NonError = ''Internal error''"

text \<open>The \<^verbatim>\<open>catch\<close> of the \<^verbatim>\<open>tools/call\<close> case.\<close>

fun tool_error :: "thrown \<Rightarrow> rpc_error" where
  "tool_error (ZodError m issues) = \<lparr>code = - 32602, message = m, data = Some issues\<rparr>"
| "tool_error e = \<lparr>code = - 32603, message = error_message e, data = None\<rparr>"

text \<open>The \<^verbatim>\<open>catch\<close> of the resource and prompt cases.\<close>

definition internal_error :: "env \<Rightarrow> thrown \<Rightarrow> rpc_error" where
  "internal_error env e =
     \<lparr>code = - 32603, message = error_message e,
      data = (if development env then Some (serialize_thrown env e) else None)\<rparr>"

type_synonym outcome = "event list \<times> thrown option"

text \<open>
  Destructuring \<^verbatim>\<open>params\<close> throws when it is \<^verbatim>\<open>null\<close> (the default
  \<^verbatim>\<open>{}\<close> stands in for an absent \<^verbatim>\<open>params\<close> only).
\<close>

definition destructure :: "json \<Rightarrow> string \<Rightarrow> thrown + json option" where
  "destructure ps k =
     (if ps = JNull
      then Inl (JsError (''Cannot destructure property '' @ [CHR 0x27] @ k @ [CHR 0x27]
                         @ '' of '' @ [CHR 0x27] @ ''params'' @ [CHR 0x27] @ '' as it is null.''))
      else Inr (obj_get ps k))"

definition initialize_result :: "env \<Rightarrow> Session option \<Rightarrow> json" where
  "initialize_result env session =
     JObj ([(''protocolVersion'', JStr ''2025-06-18''),
            (''capabilities'',
               JObj [(''tools'', JObj [(''listChanged'', JBool True)]),
                     (''resources'', JObj [(''subscribe'', JBool True), (''listChanged'', JBool True)]),
                     (''prompts'', JObj [(''listChanged'', JBool True)]),
                     (''logging'', JObj [(''level'', JStr ''info'')])]),
            (''serverInfo'',
               JObj [(''name'', JStr ''frappe-mcp-server''), (''version'', JStr (getVersion env))])]
           @ (case session of None \<Rightarrow> [] | Some s \<Rightarrow> [(''sessionId'', JStr (sid s))]))"

definition tools_call :: "env \<Rightarrow> bool \<Rightarrow> json option \<Rightarrow> json \<Rightarrow> outcome" where
  "tools_call env streaming i ps =
     (case destructure ps ''name'' of
        Inl e \<Rightarrow> ([], Some e)
      | Inr toolName \<Rightarrow>
          let toolArgs = (case obj_get ps ''arguments'' of None \<Rightarrow> JObj [] | Some a \<Rightarrow> a);
              key = js_to_string_opt toolName
          in if \<not> truthy_opt toolName \<or> tools_get (tools env) key = Undefined
             then (reply streaming (Some 404)
                     (Failure i
                        \<lparr>code = - 32601,
                         message = ''Tool '' @ [CHR 0x27] @ key @ [CHR 0x27] @ '' not found'',
                         data = Some (JObj [(''availableTools'',
                                             JArr (map (\<lambda>(name, tool). JStr name) (tools env)))])\<rparr>),
                   None)
             else
               (case tools_get (tools env) key of
                  Own toolDef \<Rightarrow>
                    (case zod_parse env (schema toolDef) toolArgs of
                       Inl e \<Rightarrow> (reply streaming (Some 500) (Failure i (tool_error e)), None)
                     | Inr validatedArgs \<Rightarrow>
                         ((if streaming then [SSE (Progress toolName)] else [])
                          @ [Invoke key validatedArgs]
                          @ (case handler toolDef validatedArgs of
                               Inl e \<Rightarrow> reply streaming (Some 500) (Failure i (tool_error e))
                             | Inr result \<Rightarrow> reply streaming None (Result i result)),
                          None))
                | _ \<Rightarrow>
                    (reply streaming (Some 500)
                       (Failure i
                          (tool_error
                             (JsError (''Cannot read properties of undefined (reading ''
                                       @ [CHR 0x27] @ ''parse'' @ [CHR 0x27] @ '')'')))),
                     None)))"

definition resources_list :: "env \<Rightarrow> bool \<Rightarrow> json option \<Rightarrow> outcome" where
  "resources_list env streaming i =
     (case listResources env of
        Inl e \<Rightarrow> (reply streaming (Some 500) (Failure i (internal_error env e)), None)
      | Inr resources \<Rightarrow>
          (reply streaming None
             (Result i (JObj [(''resources'', JArr resources),
                              (''categories'', getResourceCategories env),
                              (''totalResources'', JNum (int (length resources)))])),
           None))"

definition resources_read :: "env \<Rightarrow> bool \<Rightarrow> json option \<Rightarrow> json \<Rightarrow> outcome" where
  "resources_read env streaming i ps =
     (case destructure ps ''uri'' of
        Inl e \<Rightarrow> ([], Some e)
      | Inr uri \<Rightarrow>
          if \<not> truthy_opt uri
          then (reply streaming (Some 400)
                  (Failure i \<lparr>code = - 32602, message = ''Missing required parameter: uri'',
                              data = None\<rparr>),
                None)
          else
            (case getResource env (the uri) of
               Inl e \<Rightarrow> (reply streaming (Some 500) (Failure i (internal_error env e)), None)
             | Inr resource \<Rightarrow>
                 if \<not> truthy_opt resource
                 then (reply streaming (Some 404)
                         (Failure i \<lparr>code = - 32601,
                                     message = ''Resource not found: '' @ js_to_string_opt uri,
                                     data = None\<rparr>),
                       None)
                 else (reply streaming None
                         (Result i (JObj [(''contents'', JArr [the resource])])),
                       None)))"

definition prompts_list :: "env \<Rightarrow> bool \<Rightarrow> json option \<Rightarrow> outcome" where
  "prompts_list env streaming i =
     (reply streaming None
        (Result i (JObj [(''prompts'', JArr listPrompts),
                         (''totalPrompts'', JNum (int (length listPrompts)))])),
      None)"

definition prompts_get :: "env \<Rightarrow> bool \<Rightarrow> json option \<Rightarrow> json \<Rightarrow> outcome" where
  "prompts_get env streaming i ps =
     (case destructure ps ''name'' of
        Inl e \<Rightarrow> ([], Some e)
      | Inr name \<Rightarrow>
          let promptArgs = (case obj_get ps ''arguments'' of None \<Rightarrow> JObj [] | Some a \<Rightarrow> a)
          in if \<not> truthy_opt name
             then (reply streaming (Some 400)
                     (Failure i \<lparr>code = - 32602, message = ''Missing required parameter: name'',
                                 data = None\<rparr>),
                   None)
             else
               (case getPrompt env (the name) promptArgs of
                  Inl e \<Rightarrow> (reply streaming (Some 500) (Failure i (internal_error env e)), None)
                | Inr found \<Rightarrow>
                    if \<not> truthy_opt found
                    then (reply streaming (Some 404)
                            (Failure i \<lparr>code = - 32601,
                                        message = ''Prompt not found: '' @ js_to_string_opt name,
                                        data = None\<rparr>),
                          None)
                    else (reply streaming None (Result i (the found)), None)))"


text \<open>
  The \<^verbatim>\<open>switch (method)\<close>. \<open>streaming\<close> is the mode the endpoint chose before it;
  the two notification cases answer without a body.
\<close>

definition handle_method :: "env \<Rightarrow> bool \<Rightarrow> Session option \<Rightarrow> body \<Rightarrow> outcome" where
  "handle_method env streaming session req =
     (let i = rid req;
          ps = (case params req of None \<Rightarrow> JObj [] | Some p \<Rightarrow> p);
          m = meth req
      in if m = Some (JStr ''initialize'')
         then (reply streaming None (Result i (initialize_result env session)), None)
         else if m = Some (JStr ''tools/list'')
         then (reply streaming None (Result i (tools_list_result env)), None)
         else if m = Some (JStr ''tools/call'') then tools_call env streaming i ps
         else if m = Some (JStr ''resources/list'') then resources_list env streaming i
         else if m = Some (JStr ''resources/read'') then resources_read env streaming i ps
         else if m = Some (JStr ''prompts/list'') then prompts_list env streaming i
         else if m = Some (JStr ''prompts/get'') then prompts_get env streaming i ps
         else if m = Some (JStr ''notifications/initialized'')
         then ((if streaming then [End] else [Status 204, End]), None)
         else if m = Some (JStr ''notifications/message'')
         then ((if truthy_opt i
                then [Status 400,
                      Json (Failure i \<lparr>code = - 32600,
                                        message = ''Notifications should not include an id'',
                                        data = None\<rparr>)]
                else [Status 204, End]),
               None)
         else (reply streaming (Some 404)
                 (Failure i \<lparr>code = - 32601,
                             message = ''Method '' @ [CHR 0x27] @ js_to_string_opt m @ [CHR 0x27]
                                       @ '' not found'',
                             data = None\<rparr>),
               None))"

text \<open>\<^verbatim>\<open>id || null\<close>\<close>

definition or_null :: "json option \<Rightarrow> json" where
  "or_null v = (if truthy_opt v then the v else JNull)"

text \<open>The streaming set-up: the headers, the initial frame, the heartbeat timer.\<close>

definition stream_setup :: "Session option \<Rightarrow> json option \<Rightarrow> event list" where
  "stream_setup session i =
     [WriteHead 200
        [(''Content-Type'', ''text/event-stream''), (''Cache-Control'', ''no-cache''),
         (''Connection'', ''keep-alive''), (''X-Accel-Buffering'', ''no''),
         (''x-session-id'', (case session of None \<Rightarrow> [] | Some s \<Rightarrow> sid s))],
      SSE (Result i (JObj ([(''streaming'', JBool True)]
                           @ (case session of None \<Rightarrow> [] | Some s \<Rightarrow> [(''sessionId'', JStr (sid s))])))),
      StartHeartbeat]"

fun sends_headers :: "event \<Rightarrow> bool" where
  "sends_headers (WriteHead n hs) = True"
| "sends_headers (Json b) = True"
| "sends_headers End = True"
| "sends_headers e = False"

definition headersSent :: "event list \<Rightarrow> bool" where
  "headersSent evs = list_ex sends_headers evs"

text \<open>The outer \<^verbatim>\<open>catch\<close> of the endpoint.\<close>

definition catch_all :: "bool \<Rightarrow> body \<Rightarrow> thrown \<Rightarrow> event list" where
  "catch_all sent req e =
     (let errorResponse =
            Failure (Some (or_null (rid req)))
              \<lparr>code = - 32603, message = error_message e, data = None\<rparr>
      in if sent then [SSE errorResponse, End] else [Status 500, Json errorResponse])"

text \<open>The endpoint from the point where the mode is known.\<close>

definition respond :: "env \<Rightarrow> bool \<Rightarrow> Session option \<Rightarrow> body \<Rightarrow> event list" where
  "respond env streaming session req =
     (let setup = (if streaming then stream_setup session (rid req) else []);
          (evs, thr) = handle_method env streaming session req
      in case thr of
           None \<Rightarrow> setup @ evs
         | Some e \<Rightarrow> setup @ evs @ catch_all (headersSent (setup @ evs)) req e)"

text \<open>
  \<^verbatim>\<open>app.post('/')\<close>: \<open>req_session\<close> is \<^verbatim>\<open>req.session\<close> as the session
  middleware left it. The result is the response's events and the session store.
\<close>

definition post_handler ::
  "env \<Rightarrow> Session option \<Rightarrow> headers \<Rightarrow> body \<Rightarrow> sessions \<Rightarrow> event list \<times> sessions" where
  "post_handler env req_session hs req ss =
     (if jsonrpc req \<noteq> Some (JStr ''2.0'')
      then ([Status 400,
             Json (Failure (Some (or_null (rid req)))
                     \<lparr>code = - 32600, message = ''Invalid Request - must use JSON-RPC 2.0'',
                      data = None\<rparr>)],
            ss)
      else
        let create = (req_session = None \<and> meth req = Some (JStr ''initialize''));
            fresh = \<lparr>sid = randomUUID env, clientId = None, createdAt = date_now env,
                     lastActivity = date_now env, messageQueue = []\<rparr>;
            session = (if create then Some fresh else req_session);
            ss' = (if create then AList.update (randomUUID env) fresh ss else ss);
            hdr = (if create then [SetHeader ''x-session-id'' (randomUUID env)] else [])
        in case negotiate (meth req) hs of
             Inl e \<Rightarrow> (hdr @ catch_all False req e, ss')
           | Inr streaming \<Rightarrow> (hdr @ respond env streaming session req, ss'))"

definition handle_post :: "env \<Rightarrow> headers \<Rightarrow> body \<Rightarrow> sessions \<Rightarrow> event list \<times> sessions" where
  "handle_post env hs req ss =
     (let (ss1, req_session) = session_middleware (x_session_id hs) (date_now env) ss
      in post_handler env req_session hs req ss1)"

subsection \<open>The middleware around the endpoint\<close>

text \<open>The 429 answer of the rate limiter.\<close>

definition rate_limit_response :: "body \<Rightarrow> int \<Rightarrow> event list" where
  "rate_limit_response req retryAfter =
     [Status 429,
      Json (Failure (Some (or_null (rid req)))
              \<lparr>code = - 32000, message = ''Rate limit exceeded'',
               data = Some (JObj [(''retryAfter'', JNum retryAfter)])\<rparr>)]"

text \<open>
  \<^verbatim>\<open>app.post('/')\<close> for any request. Without a parsed body the destructuring of
  \<^verbatim>\<open>req.body\<close> throws, and so does \<^verbatim>\<open>req.body.id\<close> in the outer
  \<^verbatim>\<open>catch\<close>: nothing is sent and the handler's promise rejects (\<open>Inl\<close>), which the
  router passes to the error-handling middleware. The session middleware has run before.
\<close>

definition app_post ::
  "env \<Rightarrow> headers \<Rightarrow> body option \<Rightarrow> sessions \<Rightarrow> (thrown + event list) \<times> sessions" where
  "app_post env hs b ss =
     (case b of
        None \<Rightarrow>
          (Inl (JsError (''Cannot read properties of undefined (reading '' @ [CHR 0x27] @ ''id''
                         @ [CHR 0x27] @ '')'')),
           fst (session_middleware (x_session_id hs) (date_now env) ss))
      | Some req \<Rightarrow>
          (Inr (fst (handle_post env hs req ss)), snd (handle_post env hs req ss)))"

text \<open>
  What \<^verbatim>\<open>req.body?.id\<close> and \<^verbatim>\<open>req.body && req.body.method\<close> read in the
  middleware: the properties of the parsed body, nothing without one.
\<close>

definition unparsed :: body where
  "unparsed = \<lparr>jsonrpc = None, meth = None, params = None, rid = None\<rparr>"

definition body_of :: "body option \<Rightarrow> body" where
  "body_of b = (case b of None \<Rightarrow> unparsed | Some req \<Rightarrow> req)"

text \<open>
  \<^verbatim>\<open>metricsMiddleware\<close> counts the request and wraps \<^verbatim>\<open>res.json\<close>: the wrapper
  (\<open>wrapped_json\<close>) runs for each \<open>Json\<close> of the events that follow, with the status
  code set before it (200 to begin with). Nothing runs for \<^verbatim>\<open>res.write\<close> and
  \<^verbatim>\<open>res.end\<close>.
\<close>

definition tool_name_of :: "body \<Rightarrow> string option" where
  "tool_name_of req =
     (if meth req = Some (JStr ''tools/call'')
      then (case params req of
              None \<Rightarrow> None
            | Some p \<Rightarrow>
                (case obj_get p ''name'' of
                   None \<Rightarrow> None
                 | Some n \<Rightarrow> if truthy n then Some (js_to_string n) else None))
      else None)"

fun wrapped_json :: "int \<Rightarrow> string option \<Rightarrow> nat \<Rightarrow> event list \<Rightarrow> Metrics \<Rightarrow> Metrics" where
  "wrapped_json rt tn sc [] m = m"
| "wrapped_json rt tn sc (Status n # es) m = wrapped_json rt tn n es m"
| "wrapped_json rt tn sc (WriteHead n hs # es) m = wrapped_json rt tn n es m"
| "wrapped_json rt tn sc (Json b # es) m = wrapped_json rt tn sc es (record_json sc rt tn m)"
| "wrapped_json rt tn sc (e # es) m = wrapped_json rt tn sc es m"

definition metricsMiddleware :: "Metrics \<Rightarrow> Metrics" where
  "metricsMiddleware m = m\<lparr>total := total m + 1\<rparr>"

text \<open>
  \<^verbatim>\<open>errorHandlingMiddleware\<close>: \<open>sent\<close> is \<^verbatim>\<open>res.headersSent\<close>, \<open>stack\<close> the
  \<^verbatim>\<open>data\<close> of the answer (the stack trace in development). It counts an error
  itself, and then answers through \<^verbatim>\<open>res.json\<close>, which is the wrapped one when
  the request had passed \<^verbatim>\<open>metricsMiddleware\<close>.
\<close>

definition errorHandlingMiddleware ::
  "bool \<Rightarrow> json option \<Rightarrow> body \<Rightarrow> Metrics \<Rightarrow> event list \<times> Metrics" where
  "errorHandlingMiddleware sent stack req m =
     ((if sent then []
       else [Status 500,
             Json (Failure (Some (or_null (rid req)))
                     \<lparr>code = - 32603, message = ''Internal server error'', data = stack\<rparr>)]),
      m\<lparr>error := error m + 1\<rparr>)"

text \<open>
  One POST request through rate limiter, metrics and session middleware to the endpoint,
  and to the error-handling middleware when the endpoint rejects. A request the rate
  limiter rejects never reaches the metrics middleware.
\<close>

record server =
  rate_limits :: rate_limit_store
  metrics :: Metrics
  live_sessions :: sessions

record request =
  client :: string
  response_time :: int
  req_headers :: headers
  req_body :: "body option"

definition serve :: "env \<Rightarrow> bool \<Rightarrow> request \<Rightarrow> server \<Rightarrow> event list \<times> server" where
  "serve env production r sv =
     (let (rl, out) = rateLimitMiddleware production (client r) (date_now env) (rate_limits sv)
      in case out of
           Rejected retryAfter \<Rightarrow>
             (rate_limit_response (body_of (req_body r)) retryAfter, sv\<lparr>rate_limits := rl\<rparr>)
         | _ \<Rightarrow>
             let m1 = metricsMiddleware (metrics sv);
                 tn = tool_name_of (body_of (req_body r));
                 (res, ss) = app_post env (req_headers r) (req_body r) (live_sessions sv)
             in (case res of
                   Inr evs \<Rightarrow>
                     (evs,
                      \<lparr>rate_limits = rl,
                       metrics = wrapped_json (response_time r) tn 200 evs m1,
                       live_sessions = ss\<rparr>)
                 | Inl e \<Rightarrow>
                     (let (evs, m2) =
                            errorHandlingMiddleware False
                              (if development env then error_stack env e else None)
                              (body_of (req_body r)) m1
                      in (evs,
                          \<lparr>rate_limits = rl,
                           metrics = wrapped_json (response_time r) tn 200 evs m2,
                           live_sessions = ss\<rparr>))))"

text \<open>A run of the server: each request with the environment it meets (clock, UUID, site).\<close>

fun serve_all :: "bool \<Rightarrow> (env \<times> request) list \<Rightarrow> server \<Rightarrow> event list list \<times> server" where
  "serve_all production [] sv = ([], sv)"
| "serve_all production ((env, r) # rs) sv =
     (let (evs, sv1) = serve env production r sv;
          (rest, sv2) = serve_all production rs sv1
      in (evs # rest, sv2))"

section \<open>Observations on a response\<close>

fun is_json :: "event \<Rightarrow> bool" where
  "is_json (Json b) = True"
| "is_json e = False"

fun is_sse :: "event \<Rightarrow> bool" where
  "is_sse (SSE b) = True"
| "is_sse e = False"

fun is_invoke :: "event \<Rightarrow> bool" where
  "is_invoke (Invoke n a) = True"
| "is_invoke e = False"

definition count_json :: "event list \<Rightarrow> nat" where
  "count_json evs = length (filter is_json evs)"

definition count_sse :: "event list \<Rightarrow> nat" where
  "count_sse evs = length (filter is_sse evs)"


text \<open>The frames that end a stream: a \<open>SSE\<close> with \<open>End\<close> right after it.\<close>

fun terminal_frames :: "event list \<Rightarrow> rpc_message list" where
  "terminal_frames (SSE b # End # es) = b # terminal_frames es"
| "terminal_frames (e # es) = terminal_frames es"
| "terminal_frames [] = []"

text \<open>The JSON-RPC answer of a response: its JSON body, or the frame that ends its stream.\<close>

fun answers :: "event list \<Rightarrow> rpc_message list" where
  "answers (Json b # es) = b # answers es"
| "answers (SSE b # End # es) = b # answers es"
| "answers (e # es) = answers es"
| "answers [] = []"

definition invocations :: "event list \<Rightarrow> event list" where
  "invocations evs = filter is_invoke evs"

definition sum_counts :: "('k \<times> nat) list \<Rightarrow> nat" where
  "sum_counts d = sum_list (map snd d)"









text \<open>
  What the rate limiter answers to the \<open>k\<close>-th request of a window that ends at \<open>r\<close>,
  made at time \<open>t\<close>.
\<close>

definition expected_outcome :: "int \<Rightarrow> nat \<Rightarrow> int \<Rightarrow> rate_limit_outcome" where
  "expected_outcome r k t =
     (if k > RATE_LIMIT_MAX_REQUESTS then Rejected (ceil_div (r - t) 1000)
      else Passed RATE_LIMIT_MAX_REQUESTS (RATE_LIMIT_MAX_REQUESTS - k) (ceil_div r 1000))"

section \<open>Examples\<close>

definition example_session :: Session where
  "example_session =
     \<lparr>sid = ''a'', clientId = None, createdAt = 0, lastActivity = 0, messageQueue = []\<rparr>"

text \<open>An environment whose Frappe site cannot be reached: every call out throws.\<close>

definition unreachable :: thrown where
  "unreachable = JsError ''connect ECONNREFUSED''"

definition example_env :: env where
  "example_env =
     \<lparr>zod_parse = (\<lambda>z a. case a of JObj kvs \<Rightarrow> Inr a
                               | _ \<Rightarrow> Inl (ZodError ''Expected object''
                                            (JArr [JObj [(''code'', JStr ''invalid_type'')]]))),
      external_handler = (\<lambda>n a. Inl unreachable),
      getVersion = ''0.6.0'',
      development = False,
      serialize_thrown = (\<lambda>e. JObj []),
      error_stack = (\<lambda>e. None),
      randomUUID = ''00000000-0000-4000-8000-000000000000'',
      date_now = 0,
      listResources = Inr [],
      getResourceCategories = JObj [],
      getResource = (\<lambda>uri. Inr None),
      generate = (\<lambda>n vals. Inl unreachable)\<rparr>"

definition no_headers :: headers where
  "no_headers = \<lparr>x_session_id = None, user_agent = None, accept = None\<rparr>"


definition rpc :: "string \<Rightarrow> json option \<Rightarrow> json option \<Rightarrow> body" where
  "rpc m ps i = \<lparr>jsonrpc = Some (JStr ''2.0''), meth = Some (JStr m), params = ps, rid = i\<rparr>"

definition server0 :: server where
  "server0 = \<lparr>rate_limits = [], metrics = metrics0, live_sessions = []\<rparr>"

section \<open>Properties of the schema generator\<close>











section \<open>Properties of the session store\<close>

lemma live_lookup:
  assumes "distinct (map fst ss)"
  shows "map_of (filter (\<lambda>(j, s). \<not> expired now s) ss) i =
           Option.bind (map_of ss i) (\<lambda>s. if expired now s then None else Some s)"
  using assms
proof (induction ss)
  case Nil
  then show ?case by simp
next
  case (Cons entry ss)
  obtain j s where entry: "entry = (j, s)" by (cases entry)
  from Cons.prems entry have absent: "map_of ss j = None"
    by (simp add: map_of_eq_None_iff)
  from Cons.prems have "distinct (map fst ss)" by simp
  with Cons.IH have IH: "map_of (filter (\<lambda>(j, s). \<not> expired now s) ss) i =
           Option.bind (map_of ss i) (\<lambda>s. if expired now s then None else Some s)"
    by simp
  show ?case
  proof (cases "i = j")
    case True
    with absent IH entry show ?thesis by simp
  next
    case False
    with IH entry show ?thesis by simp
  qed
qed

lemma sweep_lookup:
  "distinct (map fst ss) \<Longrightarrow>
   map_of (fst (session_sweep now ss)) i =
     (case map_of ss i of None \<Rightarrow> None | Some s \<Rightarrow> if expired now s then None else Some s)"
  unfolding session_sweep_def
  by (simp add: live_lookup split: option.splits)

lemma touch_lookup:
  "map_of ss i = Some s \<Longrightarrow> i \<noteq> [] \<Longrightarrow>
   session_middleware (Some i) t ss =
     (AList.update i (s\<lparr>lastActivity := t\<rparr>) ss, Some (s\<lparr>lastActivity := t\<rparr>))"
  unfolding session_middleware_def by (simp add: Let_def)

text \<open>
  C6. A sweep at time \<open>now\<close> keeps a session exactly when
  \<open>now - lastActivity \<le> SESSION_TIMEOUT\<close> (30 minutes) and deletes it otherwise; and
  it reads the \<^verbatim>\<open>lastActivity\<close> the store holds at sweep time: a session touched
  at \<open>t\<close> by a request between two sweeps is judged by \<open>t\<close>, whatever its earlier
  \<^verbatim>\<open>lastActivity\<close> was.
\<close>

theorem session_timeout:
  assumes "distinct (map fst ss)" and "map_of ss i = Some s" and "i \<noteq> []"
  shows "map_of (fst (session_sweep now ss)) i =
           (if now - lastActivity s \<le> SESSION_TIMEOUT then Some s else None)
         \<and> map_of (fst (session_sweep now (fst (session_middleware (Some i) t ss)))) i =
           (if now - t \<le> SESSION_TIMEOUT then Some (s\<lparr>lastActivity := t\<rparr>) else None)"
proof
  show "map_of (fst (session_sweep now ss)) i =
           (if now - lastActivity s \<le> SESSION_TIMEOUT then Some s else None)"
    using assms by (simp add: sweep_lookup expired_def)
next
  have d: "distinct (map fst (AList.update i (s\<lparr>lastActivity := t\<rparr>) ss))"
    using assms(1) by (simp add: distinct_update)
  show "map_of (fst (session_sweep now (fst (session_middleware (Some i) t ss)))) i =
           (if now - t \<le> SESSION_TIMEOUT then Some (s\<lparr>lastActivity := t\<rparr>) else None)"
    using assms d by (simp add: touch_lookup sweep_lookup expired_def update_conv')
qed

text \<open>
  A session last active at 0: kept by a sweep at 30 minutes sharp, deleted one
  millisecond later, and kept then too when a request touched it at 1.
\<close>

theorem session_timeout_witness:
  "map_of (fst (session_sweep 1800000 [(''a'', example_session)])) ''a'' = Some example_session
   \<and> map_of (fst (session_sweep 1800001 [(''a'', example_session)])) ''a'' = None
   \<and> map_of (fst (session_sweep 1800001
        (fst (session_middleware (Some ''a'') 1 [(''a'', example_session)])))) ''a''
      = Some (example_session\<lparr>lastActivity := 1\<rparr>)"
  using session_timeout [of "[(''a'', example_session)]" "''a''" example_session 1800000 1]
        session_timeout [of "[(''a'', example_session)]" "''a''" example_session 1800001 1]
  by (simp add: example_session_def SESSION_TIMEOUT_def)

section \<open>Properties of the rate limiter\<close>

lemma rate_limit_in_window:
  "map_of store c = Some \<lparr>count = k, resetTime = r\<rparr> \<Longrightarrow> \<not> t > r \<Longrightarrow>
   rateLimitMiddleware True c t store =
     (AList.update c \<lparr>count = k + 1, resetTime = r\<rparr> store, expected_outcome r (k + 1) t)"
  unfolding rateLimitMiddleware_def expected_outcome_def by (simp add: Let_def)

lemma rate_limit_new_window:
  "(case map_of store c of None \<Rightarrow> True | Some e \<Rightarrow> t > resetTime e) \<Longrightarrow>
   rateLimitMiddleware True c t store =
     (AList.update c \<lparr>count = 1, resetTime = t + RATE_LIMIT_WINDOW\<rparr> store,
      Passed RATE_LIMIT_MAX_REQUESTS (RATE_LIMIT_MAX_REQUESTS - 1)
        (ceil_div (t + RATE_LIMIT_WINDOW) 1000))"
  unfolding rateLimitMiddleware_def
  by (auto simp add: Let_def RATE_LIMIT_MAX_REQUESTS_def split: option.splits)

lemma serve_client_Cons:
  "serve_client c (t # ts) store =
     (snd (rateLimitMiddleware True c t store)
        # fst (serve_client c ts (fst (rateLimitMiddleware True c t store))),
      snd (serve_client c ts (fst (rateLimitMiddleware True c t store))))"
  by (simp add: case_prod_beta)

declare serve_client.simps(2) [simp del]

lemma serve_client_in_window:
  "map_of store c = Some \<lparr>count = k, resetTime = r\<rparr> \<Longrightarrow> \<forall>t \<in> set ts. t \<le> r \<Longrightarrow>
   (\<forall>j < length ts. fst (serve_client c ts store) ! j = expected_outcome r (Suc (k + j)) (ts ! j))
   \<and> map_of (snd (serve_client c ts store)) c = Some \<lparr>count = k + length ts, resetTime = r\<rparr>"
proof (induction ts arbitrary: k store)
  case Nil
  then show ?case by simp
next
  case (Cons t ts)
  let ?store = "AList.update c \<lparr>count = Suc k, resetTime = r\<rparr> store"
  have step: "rateLimitMiddleware True c t store = (?store, expected_outcome r (Suc k) t)"
    using Cons.prems rate_limit_in_window [where store = store and c = c and k = k and r = r and t = t] by simp
  have look: "map_of ?store c = Some \<lparr>count = Suc k, resetTime = r\<rparr>"
    by (simp add: update_conv')
  have rest:
    "(\<forall>j < length ts. fst (serve_client c ts ?store) ! j
         = expected_outcome r (Suc (Suc k + j)) (ts ! j))
     \<and> map_of (snd (serve_client c ts ?store)) c
         = Some \<lparr>count = Suc k + length ts, resetTime = r\<rparr>"
    using Cons.prems by (intro Cons.IH [OF look]) auto
  have fst_eq: "fst (serve_client c (t # ts) store)
                  = expected_outcome r (Suc k) t # fst (serve_client c ts ?store)"
    by (simp only: serve_client_Cons step fst_conv snd_conv)
  have snd_eq: "snd (serve_client c (t # ts) store) = snd (serve_client c ts ?store)"
    by (simp only: serve_client_Cons step fst_conv snd_conv)
  show ?case
  proof (intro conjI allI impI)
    fix j assume "j < length (t # ts)"
    then show "fst (serve_client c (t # ts) store) ! j
                 = expected_outcome r (Suc (k + j)) ((t # ts) ! j)"
      using rest by (cases j) (simp_all add: fst_eq)
  next
    show "map_of (snd (serve_client c (t # ts) store)) c
            = Some \<lparr>count = k + length (t # ts), resetTime = r\<rparr>"
      using rest by (simp add: snd_eq)
  qed
qed

lemma ceil_div_bounds:
  "0 \<le> a \<Longrightarrow> a \<le> 60000 \<Longrightarrow> 0 \<le> ceil_div a 1000 \<and> ceil_div a 1000 \<le> 60"
  unfolding ceil_div_def by auto

text \<open>
  C7. In production, a client that opens a window at \<open>t0\<close> (no entry yet, or an
  expired one) and sends further requests inside it: the requests numbered 1 to 100 pass,
  the 101st and every later one of the window is rejected with code -32000 and a
  \<^verbatim>\<open>retryAfter\<close> between 0 and the window's 60 seconds; the entry then counts all
  the requests; and from any store, a request of the client after its window has elapsed
  (\<open>now > resetTime\<close>, or the entry swept away) passes and leaves the counter at 1.
  \<open>j\<close> numbers the requests from 0.
\<close>

theorem rate_limit_boundary:
  assumes fresh: "case map_of store c of None \<Rightarrow> True | Some e \<Rightarrow> t0 > resetTime e"
    and times: "\<forall>t \<in> set ts. t0 \<le> t \<and> t \<le> t0 + RATE_LIMIT_WINDOW"
    and j: "j < length (t0 # ts)"
  shows "(j < RATE_LIMIT_MAX_REQUESTS \<longrightarrow> is_passed (fst (serve_client c (t0 # ts) store) ! j))
       \<and> (j \<ge> RATE_LIMIT_MAX_REQUESTS \<longrightarrow>
            (\<exists>retryAfter. fst (serve_client c (t0 # ts) store) ! j = Rejected retryAfter
               \<and> 0 \<le> retryAfter \<and> retryAfter * 1000 \<le> RATE_LIMIT_WINDOW
               \<and> answers (rate_limit_response req retryAfter) =
                   [Failure (Some (or_null (rid req)))
                      \<lparr>code = - 32000, message = ''Rate limit exceeded'',
                       data = Some (JObj [(''retryAfter'', JNum retryAfter)])\<rparr>]))
       \<and> map_of (snd (serve_client c (t0 # ts) store)) c
            = Some \<lparr>count = length (t0 # ts), resetTime = t0 + RATE_LIMIT_WINDOW\<rparr>
       \<and> (\<forall>st now. (case map_of st c of None \<Rightarrow> True | Some e \<Rightarrow> now > resetTime e)
            \<longrightarrow> is_passed (snd (rateLimitMiddleware True c now st))
               \<and> map_option count (map_of (fst (rateLimitMiddleware True c now st)) c) = Some 1)"
proof -
  let ?r = "t0 + RATE_LIMIT_WINDOW"
  let ?store = "AList.update c \<lparr>count = 1, resetTime = ?r\<rparr> store"
  have first: "rateLimitMiddleware True c t0 store =
        (?store, Passed RATE_LIMIT_MAX_REQUESTS (RATE_LIMIT_MAX_REQUESTS - 1) (ceil_div ?r 1000))"
    using fresh by (rule rate_limit_new_window)
  have look: "map_of ?store c = Some \<lparr>count = 1, resetTime = ?r\<rparr>"
    by (simp add: update_conv')
  have rest:
    "(\<forall>j < length ts. fst (serve_client c ts ?store) ! j = expected_outcome ?r (Suc (1 + j)) (ts ! j))
     \<and> map_of (snd (serve_client c ts ?store)) c = Some \<lparr>count = 1 + length ts, resetTime = ?r\<rparr>"
    using times by (intro serve_client_in_window [OF look]) auto
  have fst_eq: "fst (serve_client c (t0 # ts) store)
      = Passed RATE_LIMIT_MAX_REQUESTS (RATE_LIMIT_MAX_REQUESTS - 1) (ceil_div ?r 1000)
        # fst (serve_client c ts ?store)"
    by (simp only: serve_client_Cons first fst_conv snd_conv)
  have snd_eq: "snd (serve_client c (t0 # ts) store) = snd (serve_client c ts ?store)"
    by (simp only: serve_client_Cons first fst_conv snd_conv)
  have final: "map_of (snd (serve_client c (t0 # ts) store)) c
                 = Some \<lparr>count = length (t0 # ts), resetTime = ?r\<rparr>"
    using rest by (simp add: snd_eq)
  have passed: "is_passed (fst (serve_client c (t0 # ts) store) ! j)" if "j < RATE_LIMIT_MAX_REQUESTS"
  proof (cases j)
    case 0
    then show ?thesis by (simp add: fst_eq)
  next
    case (Suc i)
    with j rest that show ?thesis
      by (simp add: fst_eq expected_outcome_def)
  qed
  have rejected: "\<exists>retryAfter. fst (serve_client c (t0 # ts) store) ! j = Rejected retryAfter
               \<and> 0 \<le> retryAfter \<and> retryAfter * 1000 \<le> RATE_LIMIT_WINDOW
               \<and> answers (rate_limit_response req retryAfter) =
                   [Failure (Some (or_null (rid req)))
                      \<lparr>code = - 32000, message = ''Rate limit exceeded'',
                       data = Some (JObj [(''retryAfter'', JNum retryAfter)])\<rparr>]"
    if "j \<ge> RATE_LIMIT_MAX_REQUESTS"
  proof (cases j)
    case 0
    with that show ?thesis by (simp add: RATE_LIMIT_MAX_REQUESTS_def)
  next
    case (Suc i)
    with j have i: "i < length ts" by simp
    then have "ts ! i \<in> set ts" by simp
    with times have b: "t0 \<le> ts ! i" "ts ! i \<le> ?r" by auto
    have "fst (serve_client c (t0 # ts) store) ! j = Rejected (ceil_div (?r - ts ! i) 1000)"
      using Suc i rest that by (simp add: fst_eq expected_outcome_def)
    moreover have "0 \<le> ceil_div (?r - ts ! i) 1000 \<and> ceil_div (?r - ts ! i) 1000 \<le> 60"
      using b by (intro ceil_div_bounds) (auto simp: RATE_LIMIT_WINDOW_def)
    ultimately show ?thesis by (simp add: RATE_LIMIT_WINDOW_def rate_limit_response_def)
  qed
  have after: "is_passed (snd (rateLimitMiddleware True c now st))
               \<and> map_option count (map_of (fst (rateLimitMiddleware True c now st)) c) = Some 1"
    if "case map_of st c of None \<Rightarrow> True | Some e \<Rightarrow> now > resetTime e" for st now
    using rate_limit_new_window [OF that] by (simp add: update_conv')
  show ?thesis
    using passed rejected final after by blast
qed


text \<open>101 requests of one client within a second: the 100th passes, the 101st is rejected.\<close>

theorem rate_limit_boundary_witness:
  "is_passed (fst (serve_client ''10.0.0.1'' (0 # replicate 100 1) []) ! 99)
   \<and> (\<exists>retryAfter. fst (serve_client ''10.0.0.1'' (0 # replicate 100 1) []) ! 100
                       = Rejected retryAfter
          \<and> 0 \<le> retryAfter \<and> retryAfter * 1000 \<le> RATE_LIMIT_WINDOW)
   \<and> map_of (snd (serve_client ''10.0.0.1'' (0 # replicate 100 1) [])) ''10.0.0.1''
       = Some \<lparr>count = 101, resetTime = 60000\<rparr>"
  using rate_limit_boundary
          [where store = "[]" and c = "''10.0.0.1''" and ?t0.0 = 0 and ts = "replicate 100 1"
             and j = 99 and req = "rpc ''tools/list'' None None"]
        rate_limit_boundary
          [where store = "[]" and c = "''10.0.0.1''" and ?t0.0 = 0 and ts = "replicate 100 1"
             and j = 100 and req = "rpc ''tools/list'' None None"]
  by (auto simp add: RATE_LIMIT_WINDOW_def RATE_LIMIT_MAX_REQUESTS_def)

section \<open>Properties of the POST endpoint\<close>















lemma no_sse_no_terminal: "count_sse evs = 0 \<Longrightarrow> terminal_frames evs = []"
  unfolding count_sse_def
  by (induction evs rule: terminal_frames.induct) (auto split: if_splits)











lemma tool_negotiation: "negotiate (Some (JStr ''tools/call'')) hs = Inr False"
  by (simp add: negotiate_def shouldStream_def)

lemma tools_keys: "map fst (tools env) = map fst tool_table"
  by (simp add: tools_def case_prod_beta comp_def)

lemma tools_key_set: "fst ` set (tools env) = set (map fst tool_table)"
  by (metis tools_keys list.set_map)

lemma tools_known_nonempty: "map_of (tools env) n = Some t \<Longrightarrow> n \<noteq> []"
proof
  assume a: "map_of (tools env) n = Some t" and "n = []"
  then have "[] \<in> set (map fst (tools env))"
    by (metis map_of_eq_None_iff option.distinct(1) set_map)
  then show False
    unfolding tools_keys by (simp add: tool_table_def)
qed

lemma handle_post_buffered_tools_call:
  assumes "jsonrpc req = Some (JStr ''2.0'')" and "meth req = Some (JStr ''tools/call'')"
  shows "fst (handle_post env hs req ss) =
           respond env False (snd (session_middleware (x_session_id hs) (date_now env) ss)) req"
  using assms
  by (simp add: handle_post_def post_handler_def tool_negotiation case_prod_beta Let_def)

text \<open>
  C1. A \<^verbatim>\<open>tools/call\<close> request that names a registered tool and whose arguments the
  tool's schema rejects (\<^verbatim>\<open>parse\<close> throws a ZodError) is answered with the error
  -32602, the ZodError's list of issues as \<^verbatim>\<open>data\<close>, and no handler is invoked.
\<close>

theorem schema_rejection:
  assumes "jsonrpc req = Some (JStr ''2.0'')"
    and "meth req = Some (JStr ''tools/call'')"
    and "params req = Some ps"
    and "obj_get ps ''name'' = Some (JStr n)"
    and "map_of (tools env) n = Some toolDef"
    and "zod_parse env (schema toolDef)
           (case obj_get ps ''arguments'' of None \<Rightarrow> JObj [] | Some a \<Rightarrow> a)
         = Inl (ZodError msg issues)"
  shows "fst (handle_post env hs req ss) =
           [Status 500,
            Json (Failure (rid req) \<lparr>code = - 32602, message = msg, data = Some issues\<rparr>)]
         \<and> invocations (fst (handle_post env hs req ss)) = []"
proof -
  from assms(4) have ps: "ps \<noteq> JNull" by auto
  have n: "n \<noteq> []" using assms(5) by (rule tools_known_nonempty)
  have tc: "tools_call env False (rid req) ps =
          ([Status 500,
            Json (Failure (rid req) \<lparr>code = - 32602, message = msg, data = Some issues\<rparr>)], None)"
    using assms(3-6) ps n
    by (simp add: tools_call_def destructure_def truthy_opt_def js_to_string_opt_def
          tools_get_def reply_def Let_def)
  have "fst (handle_post env hs req ss) =
           [Status 500,
            Json (Failure (rid req) \<lparr>code = - 32602, message = msg, data = Some issues\<rparr>)]"
    unfolding handle_post_buffered_tools_call [OF assms(1,2)]
    by (simp add: respond_def handle_method_def assms(2,3) tc)
  then show ?thesis by (simp add: invocations_def)
qed

text \<open>\<^verbatim>\<open>get_document\<close> called with a string for its arguments.\<close>

theorem schema_rejection_witness:
  "fst (handle_post example_env no_headers
          (rpc ''tools/call''
             (Some (JObj [(''name'', JStr ''get_document''), (''arguments'', JStr ''x'')]))
             (Some (JNum 2))) [])
   = [Status 500,
      Json (Failure (Some (JNum 2))
              \<lparr>code = - 32602, message = ''Expected object'',
               data = Some (JArr [JObj [(''code'', JStr ''invalid_type'')]])\<rparr>)]"
proof -
  have tool: "map_of (tools example_env) ''get_document''
                = Some \<lparr>description = ''Retrieve a document from Frappe'',
                        schema = ZodObject [(''doctype'', zstring), (''name'', zstring),
                                            (''fields'', ZodOptional (ZodArray zstring None))],
                        handler = handler_of example_env ''get_document''\<rparr>"
    by (simp add: tools_def tool_table_def)
  show ?thesis
    using schema_rejection
            [where req = "rpc ''tools/call''
                            (Some (JObj [(''name'', JStr ''get_document''), (''arguments'', JStr ''x'')]))
                            (Some (JNum 2))"
               and ps = "JObj [(''name'', JStr ''get_document''), (''arguments'', JStr ''x'')]"
               and n = "''get_document''" and env = example_env
               and msg = "''Expected object''"
               and issues = "JArr [JObj [(''code'', JStr ''invalid_type'')]]"
               and hs = no_headers and ss = "[]", OF _ _ _ _ tool]
    by (simp add: rpc_def) (simp add: example_env_def)
qed

text \<open>
  C2 at the name \<^verbatim>\<open>toString\<close>, which no tool has: \<^verbatim>\<open>tools['toString']\<close> is the
  function inherited from \<^verbatim>\<open>Object.prototype\<close>, so the unknown-tool branch is not
  taken, and reading \<^verbatim>\<open>toolDef.schema.parse\<close> throws inside the \<^verbatim>\<open>try\<close>: the
  answer is the internal error -32603 with status 500 and no list of available tools.
\<close>

theorem inherited_name_not_rejected:
  "fst (handle_post env hs
          \<lparr>jsonrpc = Some (JStr ''2.0''), meth = Some (JStr ''tools/call''),
           params = Some (JObj [(''name'', JStr ''toString'')]), rid = Some (JNum 1)\<rparr> ss)
   = [Status 500,
      Json (Failure (Some (JNum 1))
              \<lparr>code = - 32603,
               message = ''Cannot read properties of undefined (reading '' @ [CHR 0x27] @ ''parse''
                         @ [CHR 0x27] @ '')'',
               data = None\<rparr>)]"
proof -
  have none: "map_of (tools env) ''toString'' = None"
    by (simp add: map_of_eq_None_iff tools_key_set tool_table_def)
  show ?thesis
    by (simp add: handle_post_buffered_tools_call respond_def handle_method_def tools_call_def
          destructure_def truthy_opt_def js_to_string_opt_def tools_get_def none
          object_prototype_keys_def reply_def Let_def)
qed

text \<open>
  Every other absent or unregistered name is answered as C2 says: -32601 with the
  registry's names as \<^verbatim>\<open>availableTools\<close>.
\<close>

lemma unknown_tool:
  assumes "jsonrpc req = Some (JStr ''2.0'')"
    and "meth req = Some (JStr ''tools/call'')"
    and "params req = None \<or> (\<exists>ps. params req = Some ps \<and> ps \<noteq> JNull
            \<and> (\<not> truthy_opt (obj_get ps ''name'')
               \<or> (js_to_string_opt (obj_get ps ''name'') \<notin> set (map fst (tools env))
                  \<and> js_to_string_opt (obj_get ps ''name'') \<notin> set object_prototype_keys)))"
  shows "\<exists>msg. fst (handle_post env hs req ss) =
           [Status 404,
            Json (Failure (rid req)
                    \<lparr>code = - 32601, message = msg,
                     data = Some (JObj [(''availableTools'', JArr (map JStr (map fst (tools env))))])\<rparr>)]"
proof -
  have names: "map (\<lambda>(name, tool). JStr name) (tools env) = map JStr (map fst (tools env))"
    by (simp add: case_prod_beta)
  from assms(3) show ?thesis
  proof
    assume "params req = None"
    then show ?thesis
      unfolding handle_post_buffered_tools_call [OF assms(1,2)]
      by (simp add: respond_def handle_method_def assms(2) tools_call_def destructure_def
            truthy_opt_def reply_def Let_def names)
  next
    assume "\<exists>ps. params req = Some ps \<and> ps \<noteq> JNull
            \<and> (\<not> truthy_opt (obj_get ps ''name'')
               \<or> (js_to_string_opt (obj_get ps ''name'') \<notin> set (map fst (tools env))
                  \<and> js_to_string_opt (obj_get ps ''name'') \<notin> set object_prototype_keys))"
    then obtain ps where ps: "params req = Some ps" "ps \<noteq> JNull"
      and u: "\<not> truthy_opt (obj_get ps ''name'')
               \<or> (js_to_string_opt (obj_get ps ''name'') \<notin> set (map fst (tools env))
                  \<and> js_to_string_opt (obj_get ps ''name'') \<notin> set object_prototype_keys)"
      by blast
    from u have "\<not> truthy_opt (obj_get ps ''name'')
        \<or> tools_get (tools env) (js_to_string_opt (obj_get ps ''name'')) = Undefined"
      by (force simp add: tools_get_def split: option.splits dest: map_of_SomeD)
    then show ?thesis
      unfolding handle_post_buffered_tools_call [OF assms(1,2)]
      by (auto simp add: respond_def handle_method_def assms(2) ps tools_call_def destructure_def
            reply_def Let_def names)
  qed
qed

lemma answers_reply: "answers (reply streaming st msg) = [msg]"
  by (simp add: reply_def split: option.splits)

lemma answers_setup: "answers (stream_setup session i @ evs) = answers evs"
  by (simp add: stream_setup_def)

lemma answers_catch_all: "answers (catch_all sent req e) =
   [Failure (Some (or_null (rid req))) \<lparr>code = - 32603, message = error_message e, data = None\<rparr>]"
  by (simp add: catch_all_def Let_def)

lemma invocations_reply: "invocations (reply streaming st msg) = []"
  by (simp add: reply_def invocations_def split: option.splits)

lemma invocations_setup: "invocations (stream_setup session i @ evs) = invocations evs"
  by (simp add: stream_setup_def invocations_def)

lemma invocations_catch_all: "invocations (catch_all sent req e) = []"
  by (simp add: catch_all_def invocations_def Let_def)

lemma tools_call_modes:
  "answers (fst (tools_call env True i ps)) = answers (fst (tools_call env False i ps))
   \<and> invocations (fst (tools_call env True i ps)) = invocations (fst (tools_call env False i ps))
   \<and> snd (tools_call env True i ps) = snd (tools_call env False i ps)
   \<and> (snd (tools_call env False i ps) \<noteq> None \<longrightarrow>
        fst (tools_call env True i ps) = [] \<and> fst (tools_call env False i ps) = [])"
  unfolding tools_call_def Let_def
  by (auto simp add: answers_reply invocations_reply invocations_reply [unfolded invocations_def]
        invocations_def split: sum.splits property.splits)

text \<open>
  C4. For a \<^verbatim>\<open>tools/call\<close> request, the endpoint run in streaming mode and run in
  buffered mode give the same JSON-RPC answer (the frame that ends the stream, the JSON
  body: the same id with the same result or the same error) and invoke the same handler
  with the same arguments; the modes differ in the framing around it (status line,
  initial frame, progress frame). The negotiation itself never picks streaming for
  \<^verbatim>\<open>tools/call\<close>.
\<close>

theorem mode_equivalence:
  assumes "meth req = Some (JStr ''tools/call'')"
  shows "answers (respond env True s1 req) = answers (respond env False s2 req)
       \<and> invocations (respond env True s1 req) = invocations (respond env False s2 req)
       \<and> negotiate (meth req) hs = Inr False"
proof -
  let ?ps = "case params req of None \<Rightarrow> JObj [] | Some p \<Rightarrow> p"
  have hm: "handle_method env b s req = tools_call env b (rid req) ?ps" for b s
    by (simp add: handle_method_def assms)
  obtain e1 t1 where a: "tools_call env True (rid req) ?ps = (e1, t1)"
    by (cases "tools_call env True (rid req) ?ps")
  obtain e2 t2 where b: "tools_call env False (rid req) ?ps = (e2, t2)"
    by (cases "tools_call env False (rid req) ?ps")
  from tools_call_modes [of env "rid req" ?ps]
  have eq: "answers e1 = answers e2" "invocations e1 = invocations e2" "t1 = t2"
    "t2 \<noteq> None \<longrightarrow> e1 = [] \<and> e2 = []"
    by (simp_all add: a b)
  have "answers (respond env True s1 req) = answers (respond env False s2 req)"
    unfolding respond_def hm a b using eq
    by (cases t2) (simp_all add: answers_setup answers_catch_all Let_def)
  moreover have "invocations (respond env True s1 req) = invocations (respond env False s2 req)"
    unfolding respond_def hm a b using eq
    by (cases t2) (simp_all add: invocations_setup invocations_catch_all Let_def)
  moreover have "negotiate (meth req) hs = Inr False"
    by (simp add: assms negotiate_def shouldStream_def)
  ultimately show ?thesis by simp
qed


text \<open>\<^verbatim>\<open>ping\<close> answers \<^verbatim>\<open>pong\<close> in both modes.\<close>

theorem mode_equivalence_witness:
  "answers (respond example_env True None
              (rpc ''tools/call'' (Some (JObj [(''name'', JStr ''ping'')])) (Some (JNum 1))))
     = [Result (Some (JNum 1)) (text_content ''pong'')]
   \<and> answers (respond example_env False None
              (rpc ''tools/call'' (Some (JObj [(''name'', JStr ''ping'')])) (Some (JNum 1))))
     = [Result (Some (JNum 1)) (text_content ''pong'')]"
proof -
  have ping: "map_of (tools example_env) ''ping''
                = Some \<lparr>description = ''A simple tool to check if the server is responding.'',
                        schema = ZodObject [], handler = handler_of example_env ''ping''\<rparr>"
    by (simp add: tools_def tool_table_def)
  have buffered: "respond example_env False None
              (rpc ''tools/call'' (Some (JObj [(''name'', JStr ''ping'')])) (Some (JNum 1)))
     = [Invoke ''ping'' (JObj []), Json (Result (Some (JNum 1)) (text_content ''pong''))]"
    by (simp add: respond_def handle_method_def rpc_def tools_call_def destructure_def
          truthy_opt_def js_to_string_opt_def tools_get_def ping Let_def)
       (simp add: example_env_def handler_of_def reply_def)
  show ?thesis
    using mode_equivalence
            [of "rpc ''tools/call'' (Some (JObj [(''name'', JStr ''ping'')])) (Some (JNum 1))"
                example_env None None no_headers]
    by (simp add: buffered) (simp add: rpc_def)
qed

lemma notification_negotiation:
  "negotiate (Some (JStr ''notifications/initialized'')) hs = Inr False"
  "negotiate (Some (JStr ''notifications/message'')) hs = Inr False"
  "negotiate (Some (JStr ''prompts/get'')) hs = Inr False"
  by (simp_all add: negotiate_def shouldStream_def)

lemma handle_post_buffered:
  assumes "jsonrpc req = Some (JStr ''2.0'')" and "negotiate (meth req) hs = Inr False"
    and "meth req \<noteq> Some (JStr ''initialize'')"
  shows "fst (handle_post env hs req ss) =
           respond env False (snd (session_middleware (x_session_id hs) (date_now env) ss)) req"
  using assms
  by (simp add: handle_post_def post_handler_def case_prod_beta Let_def)

text \<open>
  A \<^verbatim>\<open>notifications/initialized\<close> request is never streamed and is answered 204 with
  no body, whatever its id. A \<^verbatim>\<open>notifications/message\<close> request is answered with the
  error -32600 (status 400) when \<^verbatim>\<open>if (id)\<close> finds its id, and 204 with no body
  otherwise.
\<close>

lemma notifications_answers:
  assumes "jsonrpc req = Some (JStr ''2.0'')"
  shows "(meth req = Some (JStr ''notifications/initialized'')
            \<longrightarrow> fst (handle_post env hs req ss) = [Status 204, End])
       \<and> (meth req = Some (JStr ''notifications/message'')
            \<longrightarrow> fst (handle_post env hs req ss) =
                  (if truthy_opt (rid req)
                   then [Status 400,
                         Json (Failure (rid req)
                                 \<lparr>code = - 32600,
                                  message = ''Notifications should not include an id'',
                                  data = None\<rparr>)]
                   else [Status 204, End]))"
proof (intro conjI impI)
  assume m: "meth req = Some (JStr ''notifications/initialized'')"
  show "fst (handle_post env hs req ss) = [Status 204, End]"
    by (simp add: handle_post_buffered assms m notification_negotiation respond_def
          handle_method_def)
next
  assume m: "meth req = Some (JStr ''notifications/message'')"
  show "fst (handle_post env hs req ss) =
                  (if truthy_opt (rid req)
                   then [Status 400,
                         Json (Failure (rid req)
                                 \<lparr>code = - 32600,
                                  message = ''Notifications should not include an id'',
                                  data = None\<rparr>)]
                   else [Status 204, End])"
    by (simp add: handle_post_buffered assms m notification_negotiation respond_def
          handle_method_def)
qed

text \<open>
  C10 at a \<^verbatim>\<open>notifications/message\<close> request with the id 0. The claim has the
  presence of an id answered with the protocol error -32600; the code tests
  \<^verbatim>\<open>if (id)\<close>, which the id 0 fails (as do \<^verbatim>\<open>""\<close>, \<^verbatim>\<open>false\<close> and
  \<^verbatim>\<open>null\<close>), and answers 204 with no body as if there were no id.
\<close>

theorem message_with_falsy_id_accepted:
  "fst (handle_post env hs (rpc ''notifications/message'' None (Some (JNum 0))) ss)
     = [Status 204, End]"
  by (simp add: handle_post_buffered rpc_def negotiate_def shouldStream_def respond_def
        handle_method_def truthy_opt_def)

text \<open>
  A \<^verbatim>\<open>prompts/get\<close> request with a non-empty name is answered not-found (-32601,
  status 404) when the name is outside the prompt catalog, and also when the name is in
  the catalog and its generator throws: \<^verbatim>\<open>getPrompt\<close> catches the exception and
  returns \<^verbatim>\<open>null\<close>, so the \<^verbatim>\<open>catch\<close> of the \<^verbatim>\<open>prompts/get\<close> case
  (-32603) is not reached.
\<close>

lemma prompt_failure_is_not_found:
  assumes "jsonrpc req = Some (JStr ''2.0'')"
    and "meth req = Some (JStr ''prompts/get'')"
    and "params req = Some ps"
    and "obj_get ps ''name'' = Some (JStr n)"
    and "n \<noteq> []"
    and "map_of prompt_cases n = None
         \<or> (\<exists>keys vals e. map_of prompt_cases n = Some keys
               \<and> read_properties (case obj_get ps ''arguments'' of None \<Rightarrow> JObj [] | Some a \<Rightarrow> a) keys
                   = Inr vals
               \<and> generate env n vals = Inl e)"
  shows "fst (handle_post env hs req ss) =
           [Status 404,
            Json (Failure (rid req)
                    \<lparr>code = - 32601, message = ''Prompt not found: '' @ n, data = None\<rparr>)]"
proof -
  from assms(4) have ps: "ps \<noteq> JNull" by auto
  from assms(6) have g: "getPrompt env (JStr n)
      (case obj_get ps ''arguments'' of None \<Rightarrow> JObj [] | Some a \<Rightarrow> a) = Inr None"
    unfolding getPrompt_def by auto
  have pg: "prompts_get env False (rid req) ps =
          ([Status 404,
            Json (Failure (rid req)
                    \<lparr>code = - 32601, message = ''Prompt not found: '' @ n, data = None\<rparr>)], None)"
    using assms(4,5) ps g
    by (simp add: prompts_get_def destructure_def truthy_opt_def js_to_string_opt_def reply_def
          Let_def)
  show ?thesis
    by (simp add: handle_post_buffered assms(1,2,3) notification_negotiation respond_def
          handle_method_def pg)
qed

text \<open>
  C8 at \<^verbatim>\<open>analyze_doctype\<close>, a prompt of the catalog, with a Frappe site that cannot
  be reached, so that the generator throws. The claim has an internal error (-32603)
  returned, as the \<^verbatim>\<open>catch\<close> of the \<^verbatim>\<open>prompts/get\<close> case would; the answer is
  not-found (-32601, \<^verbatim>\<open>Prompt not found: analyze_doctype\<close>).
\<close>

theorem generator_exception_reported_not_found:
  "map_of prompt_cases ''analyze_doctype'' = Some [''doctype_name'']
   \<and> generate example_env ''analyze_doctype'' [Some (JStr ''Customer'')] = Inl unreachable
   \<and> fst (handle_post example_env no_headers
            (rpc ''prompts/get''
               (Some (JObj [(''name'', JStr ''analyze_doctype''),
                            (''arguments'', JObj [(''doctype_name'', JStr ''Customer'')])]))
               (Some (JNum 3))) [])
     = [Status 404,
        Json (Failure (Some (JNum 3))
                \<lparr>code = - 32601, message = ''Prompt not found: analyze_doctype'', data = None\<rparr>)]"
  by (simp add: prompt_cases_def example_env_def handle_post_def post_handler_def
        session_middleware_def no_headers_def rpc_def negotiate_def shouldStream_def respond_def
        handle_method_def prompts_get_def destructure_def truthy_opt_def js_to_string_opt_def
        getPrompt_def read_property_def reply_def Let_def)

section \<open>Properties of the metrics\<close>

lemma sum_update_bump:
  fixes d :: "('k \<times> nat) list"
  shows "map_of d k = c \<Longrightarrow>
   sum_list (map snd (AList.update k ((case c of None \<Rightarrow> 0 | Some n \<Rightarrow> n) + 1) d))
     = sum_list (map snd d) + 1"
  by (induction d arbitrary: c) (auto split: if_splits)

lemma sum_counts_bump: "sum_counts (bump k d) = sum_counts d + 1"
  unfolding sum_counts_def bump_def by (rule sum_update_bump) simp

lemma record_json_counts:
  "sum_counts (byStatus (record_json sc rt tn m)) = sum_counts (byStatus m) + 1
   \<and> success (record_json sc rt tn m) + error (record_json sc rt tn m) = success m + error m + 1
   \<and> total (record_json sc rt tn m) = total m"
  unfolding record_json_def Let_def
  by (simp add: sum_counts_bump split: option.splits)

lemma wrapped_json_counts:
  "sum_counts (byStatus (wrapped_json rt tn sc evs m)) = sum_counts (byStatus m) + count_json evs
   \<and> success (wrapped_json rt tn sc evs m) + error (wrapped_json rt tn sc evs m)
       = success m + error m + count_json evs
   \<and> total (wrapped_json rt tn sc evs m) = total m"
proof (induction rt tn sc evs m rule: wrapped_json.induct)
  case (4 rt tn sc b es m)
  then show ?case
    using record_json_counts [of sc rt tn m] by (simp add: count_json_def)
qed (simp_all add: count_json_def)

lemma serve_parsed:
  assumes "req_body r = Some req"
  shows "serve env False r sv =
     (fst (handle_post env (req_headers r) req (live_sessions sv)),
      \<lparr>rate_limits = rate_limits sv,
       metrics = wrapped_json (response_time r) (tool_name_of req) 200
                   (fst (handle_post env (req_headers r) req (live_sessions sv)))
                   (metricsMiddleware (metrics sv)),
       live_sessions = snd (handle_post env (req_headers r) req (live_sessions sv))\<rparr>)"
  by (simp add: serve_def rateLimitMiddleware_def app_post_def body_of_def assms Let_def)

lemma serve_all_Cons:
  "serve_all production ((env, r) # rs) sv =
     (fst (serve env production r sv) # fst (serve_all production rs (snd (serve env production r sv))),
      snd (serve_all production rs (snd (serve env production r sv))))"
  by (simp add: case_prod_beta)

declare serve_all.simps(2) [simp del]

lemma serve_all_counts:
  assumes "\<forall>x \<in> set rs. req_body (snd x) \<noteq> None"
  shows "sum_counts (byStatus (metrics (snd (serve_all False rs sv))))
     = sum_counts (byStatus (metrics sv)) + sum_list (map count_json (fst (serve_all False rs sv)))
   \<and> success (metrics (snd (serve_all False rs sv))) + error (metrics (snd (serve_all False rs sv)))
     = success (metrics sv) + error (metrics sv)
       + sum_list (map count_json (fst (serve_all False rs sv)))
   \<and> total (metrics (snd (serve_all False rs sv))) = total (metrics sv) + length rs"
  using assms
proof (induction rs arbitrary: sv)
  case Nil
  then show ?case by simp
next
  case (Cons x rs)
  obtain env r where x: "x = (env, r)" by (cases x)
  from Cons.prems x obtain req where b: "req_body r = Some req" by auto
  let ?evs = "fst (handle_post env (req_headers r) req (live_sessions sv))"
  let ?sv = "snd (serve env False r sv)"
  have m: "metrics ?sv = wrapped_json (response_time r) (tool_name_of req) 200 ?evs
                           (metricsMiddleware (metrics sv))"
    by (simp add: serve_parsed [OF b])
  have f: "fst (serve env False r sv) = ?evs"
    by (simp add: serve_parsed [OF b])
  from Cons.prems have rest: "\<forall>x \<in> set rs. req_body (snd x) \<noteq> None" by simp
  show ?case
    unfolding x serve_all_Cons
    using Cons.IH [OF rest, of ?sv]
      wrapped_json_counts [of "response_time r" "tool_name_of req" 200 ?evs
                              "metricsMiddleware (metrics sv)"]
    by (simp add: m f metricsMiddleware_def)
qed

text \<open>
  With the rate limiter inactive, after \<open>K\<close> requests that all have a parsed body,
  \<open>total\<close> is \<open>K\<close>, and the per-status counts and \<open>success + error\<close> both sum to
  the number of JSON bodies sent.
\<close>

lemma parsed_bodies_conserve:
  assumes "metrics sv = metrics0" and "\<forall>x \<in> set rs. req_body (snd x) \<noteq> None"
  shows "total (metrics (snd (serve_all False rs sv))) = length rs
       \<and> sum_counts (byStatus (metrics (snd (serve_all False rs sv))))
           = sum_list (map count_json (fst (serve_all False rs sv)))
       \<and> success (metrics (snd (serve_all False rs sv)))
           + error (metrics (snd (serve_all False rs sv)))
           = sum_list (map count_json (fst (serve_all False rs sv)))"
  using serve_all_counts [OF assms(2), of sv]
  by (simp add: assms(1) metrics0_def sum_counts_def)

text \<open>
  C5 at one POST request without a parsed body, from fresh metrics. The endpoint rejects,
  \<^verbatim>\<open>errorHandlingMiddleware\<close> counts an error and answers 500 through the wrapped
  \<^verbatim>\<open>res.json\<close>, which counts the status and an error again: one request, one
  recorded status code, \<open>success + error = 2\<close>, where the claim has 1.
\<close>

theorem unparsed_body_counted_twice:
  "fst (serve example_env False
          \<lparr>client = ''10.0.0.1'', response_time = 2, req_headers = no_headers, req_body = None\<rparr>
          server0)
     = [Status 500,
        Json (Failure (Some JNull)
                \<lparr>code = - 32603, message = ''Internal server error'', data = None\<rparr>)]
   \<and> total (metrics (snd (serve example_env False
          \<lparr>client = ''10.0.0.1'', response_time = 2, req_headers = no_headers, req_body = None\<rparr>
          server0))) = 1
   \<and> byStatus (metrics (snd (serve example_env False
          \<lparr>client = ''10.0.0.1'', response_time = 2, req_headers = no_headers, req_body = None\<rparr>
          server0))) = [(500, 1)]
   \<and> success (metrics (snd (serve example_env False
          \<lparr>client = ''10.0.0.1'', response_time = 2, req_headers = no_headers, req_body = None\<rparr>
          server0))) = 0
   \<and> error (metrics (snd (serve example_env False
          \<lparr>client = ''10.0.0.1'', response_time = 2, req_headers = no_headers, req_body = None\<rparr>
          server0))) = 2"
  by (simp add: serve_def rateLimitMiddleware_def app_post_def body_of_def unparsed_def
        errorHandlingMiddleware_def metricsMiddleware_def tool_name_of_def server0_def
        metrics0_def example_env_def or_null_def truthy_opt_def record_json_def bump_def
        Let_def)

end
